theory Spec2Isabelle
  imports Complex_Main
begin

section \<open>Numbers and text\<close>


definition digit_char :: "nat \<Rightarrow> char" where
  "digit_char d = ''0123456789'' ! d"

function show_nat :: "nat \<Rightarrow> string" where
  "show_nat n = (if n < 10 then [digit_char n] else show_nat (n div 10) @ [digit_char (n mod 10)])"
  by pat_completeness auto
termination
  by (relation "measure (\<lambda>n. n)") auto

declare show_nat.simps [simp del]

definition show_int :: "int \<Rightarrow> string" where
  \<comment> \<open>What a template literal prints for an integer-valued number.\<close>
  "show_int i = (if i < 0 then CHR ''-'' # show_nat (nat (- i)) else show_nat (nat i))"

section \<open>Confidence calculator\<close>

record Dimensions =
  completeness :: rat
  accuracy :: rat
  feasibility :: rat
  coverage :: rat

record ConfidenceScore =
  overall :: rat
  dimensions :: Dimensions
  reasoning :: string
  humanReviewRequired :: bool







section \<open>Critique results and the cognitive quadrant\<close>

datatype Severity = Critical | High | Medium | Low

record Issue =
  severity :: Severity
  issue_description :: string
  suggestion :: "string option"

record AutoCorrection =
  correction_description :: string
  applied :: bool

datatype PhaseId = Scan | Interpret | Orchestrate | Execute | Derive

record CritiqueResult =
  phaseId :: PhaseId
  confidence :: ConfidenceScore
  issues :: "Issue list"
  autoCorrections :: "AutoCorrection list"

datatype Mode = Autonomous | Supervised | Collaborative | Manual

record Thresholds =
  autoApprove :: rat
  requireReview :: rat
  autoCorrect :: rat

datatype InterventionPoint =
  Before_phase | After_phase | On_low_confidence | On_error | On_critical_issue

record CognitiveQuadrant =
  mode :: Mode
  thresholds :: Thresholds
  humanInterventionPoints :: "InterventionPoint list"

text \<open>
  The reason texts of the source are not ASCII; each is represented by a tag. The two
  parametrised ones keep the confidence they print.
\<close>

datatype Reason =
  ConfidenceTooLow rat | CriticalErrorDetected | AutoHandled | HighConfidenceApproved
  | ConfidenceMediumNeedsReview rat | InterventionPointTriggered | ConfidenceBelowThreshold rat
  | CriticalIssueDetected | VeryHighConfidenceApproved | ManualModeNeedsReview | DefaultAutoHandled
  | AutoCorrectableDetected | MediumConfidenceSuggestReview

record Escalation =
  shouldEscalate :: bool
  reason :: Reason

datatype RecommendedAction = Approve | Reject | Review | Auto_correct

record Recommendation =
  rec_action :: RecommendedAction
  rec_reason :: Reason

definition hasCriticalErrors :: "CritiqueResult \<Rightarrow> bool" where
  "hasCriticalErrors critique = list_ex (\<lambda>i. severity i = Critical) (issues critique)"

fun checkInterventionPoints :: "CognitiveQuadrant \<Rightarrow> CritiqueResult \<Rightarrow> InterventionPoint list \<Rightarrow> bool" where
  "checkInterventionPoints cfg critique [] = False"
| "checkInterventionPoints cfg critique (p # ps) =
     (case p of
        On_low_confidence \<Rightarrow>
          (if overall (confidence critique) < requireReview (thresholds cfg) then True
           else checkInterventionPoints cfg critique ps)
      | On_critical_issue \<Rightarrow>
          (if hasCriticalErrors critique then True else checkInterventionPoints cfg critique ps)
      | On_error \<Rightarrow>
          (if length (issues critique) > 0 then True else checkInterventionPoints cfg critique ps)
      | Before_phase \<Rightarrow> checkInterventionPoints cfg critique ps
      | After_phase \<Rightarrow> checkInterventionPoints cfg critique ps)"

definition shouldEscalateToHuman :: "CognitiveQuadrant \<Rightarrow> CritiqueResult \<Rightarrow> Escalation" where
  "shouldEscalateToHuman cfg critique =
     (let conf = overall (confidence critique) in
      if mode cfg = Autonomous then
        (if conf < autoCorrect (thresholds cfg)
           then \<lparr> shouldEscalate = True, reason = ConfidenceTooLow conf \<rparr>
         else if hasCriticalErrors critique
           then \<lparr> shouldEscalate = True, reason = CriticalErrorDetected \<rparr>
         else \<lparr> shouldEscalate = False, reason = AutoHandled \<rparr>)
      else if mode cfg = Collaborative then
        (if conf \<ge> autoApprove (thresholds cfg)
           then \<lparr> shouldEscalate = False, reason = HighConfidenceApproved \<rparr>
         else if conf < requireReview (thresholds cfg)
           then \<lparr> shouldEscalate = True, reason = ConfidenceMediumNeedsReview conf \<rparr>
         else if checkInterventionPoints cfg critique (humanInterventionPoints cfg)
           then \<lparr> shouldEscalate = True, reason = InterventionPointTriggered \<rparr>
         else \<lparr> shouldEscalate = False, reason = AutoHandled \<rparr>)
      else if mode cfg = Supervised then
        (if conf \<ge> autoApprove (thresholds cfg)
           then \<lparr> shouldEscalate = False, reason = HighConfidenceApproved \<rparr>
         else if conf < requireReview (thresholds cfg)
           then \<lparr> shouldEscalate = True, reason = ConfidenceBelowThreshold conf \<rparr>
         else if hasCriticalErrors critique
           then \<lparr> shouldEscalate = True, reason = CriticalIssueDetected \<rparr>
         else \<lparr> shouldEscalate = False, reason = AutoHandled \<rparr>)
      else if mode cfg = Manual then
        (if conf \<ge> 9 / 10 \<and> length (issues critique) = 0
           then \<lparr> shouldEscalate = False, reason = VeryHighConfidenceApproved \<rparr>
         else \<lparr> shouldEscalate = True, reason = ManualModeNeedsReview \<rparr>)
      else \<lparr> shouldEscalate = False, reason = DefaultAutoHandled \<rparr>)"

definition shouldAttemptAutoCorrect :: "CognitiveQuadrant \<Rightarrow> CritiqueResult \<Rightarrow> bool" where
  "shouldAttemptAutoCorrect cfg critique =
     (length (autoCorrections critique) > 0 \<and> length (issues critique) > 0 \<and>
      overall (confidence critique) \<ge> autoCorrect (thresholds cfg))"

definition getRecommendedAction :: "CognitiveQuadrant \<Rightarrow> CritiqueResult \<Rightarrow> Recommendation" where
  "getRecommendedAction cfg critique =
     (let escalation = shouldEscalateToHuman cfg critique in
      if shouldEscalate escalation then
        (if overall (confidence critique) < autoCorrect (thresholds cfg)
           then \<lparr> rec_action = Reject, rec_reason = reason escalation \<rparr>
         else \<lparr> rec_action = Review, rec_reason = reason escalation \<rparr>)
      else if shouldAttemptAutoCorrect cfg critique
        then \<lparr> rec_action = Auto_correct, rec_reason = AutoCorrectableDetected \<rparr>
      else if overall (confidence critique) \<ge> autoApprove (thresholds cfg)
        then \<lparr> rec_action = Approve, rec_reason = HighConfidenceApproved \<rparr>
      else \<lparr> rec_action = Review, rec_reason = MediumConfidenceSuggestReview \<rparr>)"

definition manual_default_config :: CognitiveQuadrant where
  \<comment> \<open>the constructor's defaults, with the mode set to manual\<close>
  "manual_default_config =
     \<lparr> mode = Manual,
       thresholds = \<lparr> autoApprove = 8 / 10, requireReview = 6 / 10, autoCorrect = 5 / 10 \<rparr>,
       humanInterventionPoints = [On_low_confidence, On_critical_issue] \<rparr>"

definition critique_of :: "rat \<Rightarrow> Issue list \<Rightarrow> CritiqueResult" where
  \<comment> \<open>a critique with the given overall confidence and issues, and no proposed corrections\<close>
  "critique_of ov is =
     \<lparr> phaseId = Execute,
       confidence = \<lparr> overall = ov,
                      dimensions = \<lparr> completeness = 1, accuracy = 1, feasibility = 1, coverage = 1 \<rparr>,
                      reasoning = [], humanReviewRequired = False \<rparr>,
       issues = is, autoCorrections = [] \<rparr>"

section \<open>Steps and workflows\<close>

text \<open>
  Values typed \<open>any\<close> in the source are JSON values. Numbers inside them are restricted to
  integers, which JavaScript prints in plain decimal.
\<close>

datatype json =
  JNull | JBool bool | JNum int | JStr string | JArr "json list" | JObj "(string \<times> json) list"

datatype Action =
  Navigate | Click | Input | Select | Wait | Verify | Screenshot | Extract | Conditional | Loop

datatype Source = User | Faker | State | Constant

datatype ValidationType = Exists | Visible | Text | Value | Count | Custom

datatype Strategy = Retry | Skip | Abort | Fallback

datatype Complexity = Simple | Moderate | Complex
  \<comment> \<open>\<open>Moderate\<close> stands for the source's "medium"\<close>

record Target =
  selector :: "string option"
  url :: "string option"
  target_value :: "string option"

record StepData =
  source :: Source
  field :: "string option"
  fakerMethod :: "string option"
  data_value :: "json option"

record Validation =
  validation_type :: ValidationType
  expected :: "json option"
  timeout :: "int option"

record ErrorHandling =
  strategy :: Strategy
  maxRetries :: "int option"
  fallbackStepNumber :: "int option"

record SOPStep =
  stepNumber :: int
  action :: Action
  description :: string
  target :: "Target option"
  data :: "StepData option"
  validation :: "Validation option"
  errorHandling :: "ErrorHandling option"

record RequiredInput =
  input_field :: string
  input_type :: string
  required :: bool
  defaultValue :: "json option"

record SuccessCriterion =
  criterion_description :: string
  criterion_validation :: string

record SOPWorkflow =
  workflow_id :: string
  name :: string
  workflow_description :: string
  metadataIds :: "string list"
  workflow_timestamp :: string
  steps :: "SOPStep list"
  requiredInputs :: "RequiredInput list"
  successCriteria :: "SuccessCriterion list"
  estimatedDuration :: int
  complexity :: Complexity
  tags :: "string list"
  critique :: CritiqueResult

fun action_name :: "Action \<Rightarrow> string" where
  "action_name Navigate = ''navigate''"
| "action_name Click = ''click''"
| "action_name Input = ''input''"
| "action_name Select = ''select''"
| "action_name Wait = ''wait''"
| "action_name Verify = ''verify''"
| "action_name Screenshot = ''screenshot''"
| "action_name Extract = ''extract''"
| "action_name Conditional = ''conditional''"
| "action_name Loop = ''loop''"

section \<open>Workflow validation (SOPParser.validate)\<close>

record ValidationReport =
  isValid :: bool
  errors :: "string list"

definition gap_message :: "int \<Rightarrow> int \<Rightarrow> string" where
  "gap_message n m = ''Step numbering gap: expected '' @ show_int n @ '', found '' @ show_int m"

fun first_gap :: "nat \<Rightarrow> int list \<Rightarrow> string list" where
  \<comment> \<open>the loop over the sorted step numbers from index \<open>i\<close> on; it breaks at the first mismatch\<close>
  "first_gap i [] = []"
| "first_gap i (x # xs) =
     (if x \<noteq> int i + 1 then [gap_message (int i + 1) x] else first_gap (Suc i) xs)"

definition step_field_errors :: "nat \<Rightarrow> SOPStep \<Rightarrow> string list" where
  \<comment> \<open>the body of the \<open>forEach\<close> over the steps; a string is falsy when it is empty\<close>
  "step_field_errors index step =
     (if action_name (action step) = [] then [''Step '' @ show_int (int index + 1) @ '' missing action''] else []) @
     (if description step = [] then [''Step '' @ show_int (int index + 1) @ '' missing description''] else [])"

definition validate :: "SOPWorkflow \<Rightarrow> ValidationReport" where
  "validate workflow =
     (let errs =
        (if name workflow = [] then [''Missing workflow name''] else []) @
        (if length (steps workflow) = 0 then [''No steps defined''] else []) @
        first_gap 0 (sort (map stepNumber (steps workflow))) @
        concat (map (\<lambda>(index, step). step_field_errors index step) (enumerate 0 (steps workflow)))
      in \<lparr> isValid = (length errs = 0), errors = errs \<rparr>)"

definition parsed_critique :: CritiqueResult where
  \<comment> \<open>the critique that the parser attaches to a workflow\<close>
  "parsed_critique =
     \<lparr> phaseId = Orchestrate,
       confidence = \<lparr> overall = 1,
                      dimensions = \<lparr> completeness = 1, accuracy = 1, feasibility = 1, coverage = 1 \<rparr>,
                      reasoning = ''Parsed from markdown'', humanReviewRequired = False \<rparr>,
       issues = [], autoCorrections = [] \<rparr>"

definition plain_step :: "int \<Rightarrow> SOPStep" where
  \<comment> \<open>a click step at the given position, with a description and no optional part\<close>
  "plain_step n =
     \<lparr> stepNumber = n, action = Click, description = ''Press'', target = None, data = None,
       validation = None, errorHandling = None \<rparr>"

definition workflow_of_steps :: "SOPStep list \<Rightarrow> SOPWorkflow" where
  \<comment> \<open>a named workflow around the given steps, used for concrete instances\<close>
  "workflow_of_steps ss =
     \<lparr> workflow_id = ''3f2b7c1e-58a4-4d0b-9c6e-1a2b3c4d5e6f'', name = ''Login'',
       workflow_description = ''Sign in'', metadataIds = [],
       workflow_timestamp = ''2024-01-01T00:00:00.000Z'', steps = ss, requiredInputs = [],
       successCriteria = [], estimatedDuration = 0, complexity = Simple, tags = [],
       critique = parsed_critique \<rparr>"

definition is_gap_error :: "string \<Rightarrow> bool" where
  "is_gap_error e = (take 19 e = ''Step numbering gap:'')"

section \<open>The browser session and the step interpreter (WorkflowExecutor)\<close>

text \<open>
  The browser is an external collaborator. It is a record of operations over a world \<open>'w\<close>;
  an operation that throws returns \<open>Inl\<close> of the error's message. Identifiers, timestamps
  and durations, which the source takes from the random source and the clock, are left out
  of the records below.
\<close>

datatype FakerKind = FullName | Email | Phone | StreetAddress | CompanyName | LoremWord

record 'w Session =
  initialize :: "'w \<Rightarrow> (string + unit) \<times> 'w"
  newPage :: "'w \<Rightarrow> (string + unit) \<times> 'w"
  closePage :: "'w \<Rightarrow> 'w"
  goto :: "string \<Rightarrow> 'w \<Rightarrow> (string + unit) \<times> 'w"
  click :: "string \<Rightarrow> 'w \<Rightarrow> (string + unit) \<times> 'w"
  fill :: "string \<Rightarrow> json \<Rightarrow> 'w \<Rightarrow> (string + unit) \<times> 'w"
  selectOption :: "string \<Rightarrow> string \<Rightarrow> 'w \<Rightarrow> (string + unit) \<times> 'w"
  waitForSelector :: "string \<Rightarrow> int \<Rightarrow> 'w \<Rightarrow> (string + unit) \<times> 'w"
  sleep :: "int \<Rightarrow> 'w \<Rightarrow> 'w"
  queryElement :: "string \<Rightarrow> 'w \<Rightarrow> (string + bool) \<times> 'w"
  isVisible :: "string \<Rightarrow> 'w \<Rightarrow> (string + bool) \<times> 'w"
  textContent :: "string \<Rightarrow> 'w \<Rightarrow> (string + string option) \<times> 'w"
  inputValue :: "string \<Rightarrow> 'w \<Rightarrow> (string + string) \<times> 'w"
  screenshot :: "'w \<Rightarrow> (string + string) \<times> 'w"
  faker :: "FakerKind \<Rightarrow> 'w \<Rightarrow> string \<times> 'w"

record ExecutionState =
  state_workflowId :: string
  variables :: "string \<Rightarrow> json option"
  currentStepNumber :: int
  completedSteps :: "int list"
  failedSteps :: "(int \<times> string) list"

record 'w Executor =
  executionState :: ExecutionState
  currentPage :: bool
  world :: 'w

record StepResult =
  success :: bool
  step_output :: "json option"
  step_error :: "string option"
  step_screenshot :: "string option"

definition createInitialState :: ExecutionState where
  "createInitialState =
     \<lparr> state_workflowId = [], variables = Map.empty, currentStepNumber = 0,
       completedSteps = [], failedSteps = [] \<rparr>"

definition new_executor :: "'w \<Rightarrow> 'w Executor" where
  \<comment> \<open>the constructor: a fresh state and no page\<close>
  "new_executor w = \<lparr> executionState = createInitialState, currentPage = False, world = w \<rparr>"

definition step_failure :: "string \<Rightarrow> StepResult" where
  "step_failure msg = \<lparr> success = False, step_output = None, step_error = Some msg, step_screenshot = None \<rparr>"

definition step_success :: "json option \<Rightarrow> StepResult" where
  "step_success out = \<lparr> success = True, step_output = out, step_error = None, step_screenshot = None \<rparr>"

definition truthy :: "string option \<Rightarrow> bool" where
  \<comment> \<open>a string that is neither undefined nor empty\<close>
  "truthy s = (case s of None \<Rightarrow> False | Some t \<Rightarrow> t \<noteq> [])"

definition await :: "('w \<Rightarrow> (string + 'a) \<times> 'w) \<Rightarrow> ('a \<Rightarrow> 'w Executor \<Rightarrow> (string + 'b) \<times> 'w Executor)
    \<Rightarrow> 'w Executor \<Rightarrow> (string + 'b) \<times> 'w Executor" where
  \<comment> \<open>a session call inside a function that lets the call's exception escape\<close>
  "await call continue ex =
     (case call (world ex) of
        (Inl msg, w) \<Rightarrow> (Inl msg, ex \<lparr> world := w \<rparr>)
      | (Inr v, w) \<Rightarrow> continue v (ex \<lparr> world := w \<rparr>))"

definition set_variable :: "string \<Rightarrow> json \<Rightarrow> 'w Executor \<Rightarrow> 'w Executor" where
  "set_variable k v ex =
     ex \<lparr> executionState := (executionState ex) \<lparr> variables := (variables (executionState ex)) (k \<mapsto> v) \<rparr> \<rparr>"

fun js_String :: "json \<Rightarrow> string"
  and js_join :: "json list \<Rightarrow> string" where
  "js_String JNull = ''null''"
| "js_String (JBool b) = (if b then ''true'' else ''false'')"
| "js_String (JNum n) = show_int n"
| "js_String (JStr s) = s"
| "js_String (JArr xs) = js_join xs"
| "js_String (JObj kvs) = ''[object Object]''"
| "js_join [] = []"
| "js_join (x # xs) =
     (case x of JNull \<Rightarrow> [] | _ \<Rightarrow> js_String x) @ (if xs = [] then [] else CHR '','' # js_join xs)"

definition js_String_opt :: "json option \<Rightarrow> string" where
  \<comment> \<open>\<open>String(v)\<close> for a value that may be undefined\<close>
  "js_String_opt v = (case v of None \<Rightarrow> ''undefined'' | Some j \<Rightarrow> js_String j)"

fun starts_with :: "string \<Rightarrow> string \<Rightarrow> bool" where
  "starts_with [] s = True"
| "starts_with (p # ps) [] = False"
| "starts_with (p # ps) (c # cs) = (p = c \<and> starts_with ps cs)"

fun js_includes :: "string \<Rightarrow> string \<Rightarrow> bool" where
  \<comment> \<open>\<open>text.js_includes(needle)\<close>\<close>
  "js_includes [] needle = (needle = [])"
| "js_includes (c # cs) needle = (starts_with needle (c # cs) \<or> js_includes cs needle)"

definition nullish_or :: "json option \<Rightarrow> json \<Rightarrow> json" where
  \<comment> \<open>\<open>v ?? d\<close>\<close>
  "nullish_or v d = (case v of None \<Rightarrow> d | Some JNull \<Rightarrow> d | Some j \<Rightarrow> j)"

definition step_selector :: "SOPStep \<Rightarrow> string option" where
  \<comment> \<open>\<open>step.target?.selector\<close>\<close>
  "step_selector step = (case target step of None \<Rightarrow> None | Some t \<Rightarrow> selector t)"

definition step_field :: "SOPStep \<Rightarrow> string option" where
  \<comment> \<open>\<open>step.data?.field\<close>\<close>
  "step_field step = (case data step of None \<Rightarrow> None | Some d \<Rightarrow> field d)"

definition validateStep :: "'w Session \<Rightarrow> SOPStep \<Rightarrow> 'w Executor \<Rightarrow> StepResult \<times> 'w Executor" where
  "validateStep S step ex =
     (case validation step of
        None \<Rightarrow> (step_success None, ex)
      | Some v \<Rightarrow>
          if \<not> currentPage ex then (step_success None, ex)
          else
            (case
               (case validation_type v of
                  Exists \<Rightarrow>
                    (let sel = (case step_selector step of None \<Rightarrow> ''body'' | Some s \<Rightarrow> s) in
                     await (queryElement S sel)
                       (\<lambda>exists ex'.
                          if Some (JBool exists) \<noteq> expected v
                          then (Inr (step_failure (''Element '' @ sel @ '' existence check failed'')), ex')
                          else (Inr (step_success None), ex')) ex)
                | Visible \<Rightarrow>
                    (let sel = (case step_selector step of None \<Rightarrow> ''body'' | Some s \<Rightarrow> s) in
                     await (isVisible S sel)
                       (\<lambda>visible ex'.
                          if Some (JBool visible) \<noteq> expected v
                          then (Inr (step_failure (''Element '' @ sel @ '' visibility check failed'')), ex')
                          else (Inr (step_success None), ex')) ex)
                | Text \<Rightarrow>
                    (let sel = (case step_selector step of None \<Rightarrow> ''body'' | Some s \<Rightarrow> s) in
                     await (textContent S sel)
                       (\<lambda>text ex'.
                          let expectedText = js_String_opt (expected v) in
                          if \<not> (case text of None \<Rightarrow> False | Some t \<Rightarrow> js_includes t expectedText)
                          then (Inr (step_failure
                                  (''Text validation failed: expected \"'' @ expectedText @ ''\", got \"''
                                    @ (case text of None \<Rightarrow> ''null'' | Some t \<Rightarrow> t) @ ''\"'')), ex')
                          else (Inr (step_success None), ex')) ex)
                | Value \<Rightarrow>
                    (let sel = (case step_selector step of None \<Rightarrow> [] | Some s \<Rightarrow> s) in
                     await (inputValue S sel)
                       (\<lambda>val ex'.
                          if Some (JStr val) \<noteq> expected v
                          then (Inr (step_failure
                                  (''Value validation failed: expected \"'' @ js_String_opt (expected v)
                                    @ ''\", got \"'' @ val @ ''\"'')), ex')
                          else (Inr (step_success None), ex')) ex)
                | Count \<Rightarrow> (Inr (step_success None), ex)
                | Custom \<Rightarrow> (Inr (step_success None), ex))
             of
               (Inl msg, ex') \<Rightarrow> (step_failure (''Validation failed: '' @ msg), ex')
             | (Inr r, ex') \<Rightarrow> (r, ex')))"

definition executeNavigate :: "'w Session \<Rightarrow> SOPStep \<Rightarrow> 'w Executor \<Rightarrow> (string + StepResult) \<times> 'w Executor" where
  "executeNavigate S step ex =
     (case (case target step of None \<Rightarrow> None | Some t \<Rightarrow> url t) of
        None \<Rightarrow> (Inr (step_failure ''No URL specified''), ex)
      | Some u \<Rightarrow>
          if u = [] then (Inr (step_failure ''No URL specified''), ex)
          else
            await (goto S u)
              (\<lambda>_ ex'.
                 if validation step \<noteq> None then
                   (case validateStep S step ex' of
                      (validationResult, ex'') \<Rightarrow>
                        if \<not> success validationResult then (Inr validationResult, ex'')
                        else (Inr (step_success (Some (JObj [(''url'', JStr u)]))), ex''))
                 else (Inr (step_success (Some (JObj [(''url'', JStr u)]))), ex')) ex)"

definition executeClick :: "'w Session \<Rightarrow> SOPStep \<Rightarrow> 'w Executor \<Rightarrow> (string + StepResult) \<times> 'w Executor" where
  "executeClick S step ex =
     (if \<not> truthy (step_selector step) then (Inr (step_failure ''No selector specified''), ex)
      else
        await (click S (the (step_selector step)))
          (\<lambda>_ ex'. (Inr (step_success (Some (JObj [(''selector'', JStr (the (step_selector step)))]))), ex'))
          ex)"

definition generateFakerValue :: "'w Session \<Rightarrow> string \<Rightarrow> 'w \<Rightarrow> string \<times> 'w" where
  "generateFakerValue S method w =
     (if CHR ''.'' \<notin> set method then
        (if method = ''name'' then faker S FullName w
         else if method = ''email'' then faker S Email w
         else if method = ''phone'' then faker S Phone w
         else if method = ''address'' then faker S StreetAddress w
         else if method = ''company'' then faker S CompanyName w
         else faker S LoremWord w)
      else faker S FullName w)"

definition input_value :: "'w Session \<Rightarrow> SOPStep \<Rightarrow> 'w Executor \<Rightarrow> json \<times> 'w Executor" where
  \<comment> \<open>the value that an input step types, by the step's data source\<close>
  "input_value S step ex =
     (case data step of
        None \<Rightarrow>
          ((case (case target step of None \<Rightarrow> None | Some t \<Rightarrow> target_value t) of
              None \<Rightarrow> JStr [] | Some s \<Rightarrow> JStr s), ex)
      | Some d \<Rightarrow>
          if source d = User then
            (let fieldName = (case field d of None \<Rightarrow> ''value'' | Some f \<Rightarrow> f)
             in (nullish_or (variables (executionState ex) fieldName) (JStr []), ex))
          else if source d = Faker then
            (case generateFakerValue S (case fakerMethod d of None \<Rightarrow> ''name'' | Some m \<Rightarrow> m) (world ex) of
               (s, w) \<Rightarrow> (JStr s, ex \<lparr> world := w \<rparr>))
          else if source d = Constant then (nullish_or (data_value d) (JStr []), ex)
          else
            ((case (case target step of None \<Rightarrow> None | Some t \<Rightarrow> target_value t) of
                None \<Rightarrow> JStr [] | Some s \<Rightarrow> JStr s), ex))"

definition executeInput :: "'w Session \<Rightarrow> SOPStep \<Rightarrow> 'w Executor \<Rightarrow> (string + StepResult) \<times> 'w Executor" where
  "executeInput S step ex =
     (if \<not> truthy (step_selector step) then (Inr (step_failure ''No selector specified''), ex)
      else
        (case input_value S step ex of
           (val, ex1) \<Rightarrow>
             await (fill S (the (step_selector step)) val)
               (\<lambda>_ ex2.
                  let ex3 = (if truthy (step_field step) then set_variable (the (step_field step)) val ex2
                             else ex2)
                  in (Inr (step_success
                        (Some (JObj [(''selector'', JStr (the (step_selector step))), (''value'', val)]))), ex3))
               ex1))"

definition executeSelect :: "'w Session \<Rightarrow> SOPStep \<Rightarrow> 'w Executor \<Rightarrow> (string + StepResult) \<times> 'w Executor" where
  "executeSelect S step ex =
     (if \<not> truthy (step_selector step) \<or>
         \<not> truthy (case target step of None \<Rightarrow> None | Some t \<Rightarrow> target_value t)
      then (Inr (step_failure ''No selector or value specified''), ex)
      else if \<not> currentPage ex then (Inr (step_failure ''No active page''), ex)
      else
        (let sel = the (step_selector step); val = the (target_value (the (target step))) in
         await (selectOption S sel val)
           (\<lambda>_ ex'. (Inr (step_success (Some (JObj [(''selector'', JStr sel), (''value'', JStr val)]))), ex'))
           ex))"

definition executeWait :: "'w Session \<Rightarrow> SOPStep \<Rightarrow> 'w Executor \<Rightarrow> (string + StepResult) \<times> 'w Executor" where
  "executeWait S step ex =
     (let ms = (case (case validation step of None \<Rightarrow> None | Some v \<Rightarrow> timeout v) of
                  None \<Rightarrow> 5000 | Some t \<Rightarrow> t);
          finish = (\<lambda>ex'. (Inr (step_success (Some (JObj [(''waited'', JNum ms)]))), ex'))
      in if truthy (step_selector step) then
           (if currentPage ex then await (waitForSelector S (the (step_selector step)) ms) (\<lambda>_. finish) ex
            else finish ex)
         else finish (ex \<lparr> world := sleep S ms (world ex) \<rparr>))"

definition executeVerify :: "'w Session \<Rightarrow> SOPStep \<Rightarrow> 'w Executor \<Rightarrow> (string + StepResult) \<times> 'w Executor" where
  "executeVerify S step ex = (case validateStep S step ex of (r, ex') \<Rightarrow> (Inr r, ex'))"

definition executeScreenshot :: "'w Session \<Rightarrow> SOPStep \<Rightarrow> 'w Executor \<Rightarrow> (string + StepResult) \<times> 'w Executor" where
  "executeScreenshot S step ex =
     await (screenshot S)
       (\<lambda>base64 ex'.
          (Inr \<lparr> success = True, step_output = None, step_error = None,
                 step_screenshot = Some (''data:image/png;base64,'' @ base64) \<rparr>, ex')) ex"

definition executeExtract :: "'w Session \<Rightarrow> SOPStep \<Rightarrow> 'w Executor \<Rightarrow> (string + StepResult) \<times> 'w Executor" where
  "executeExtract S step ex =
     (if \<not> truthy (step_selector step) \<or> \<not> currentPage ex
      then (Inr (step_failure ''No selector specified''), ex)
      else
        await (textContent S (the (step_selector step)))
          (\<lambda>text ex1.
             let tv = (case text of None \<Rightarrow> JNull | Some t \<Rightarrow> JStr t);
                 ex2 = (if truthy (step_field step) then set_variable (the (step_field step)) tv ex1
                        else ex1)
             in (Inr (step_success (Some (JObj [(''text'', tv)]))), ex2)) ex)"

definition executeStep :: "'w Session \<Rightarrow> SOPStep \<Rightarrow> 'w Executor \<Rightarrow> StepResult \<times> 'w Executor" where
  "executeStep S step ex =
     (if \<not> currentPage ex then (step_failure ''No active page'', ex)
      else
        (case
           (case action step of
              Navigate \<Rightarrow> executeNavigate S step ex
            | Click \<Rightarrow> executeClick S step ex
            | Input \<Rightarrow> executeInput S step ex
            | Select \<Rightarrow> executeSelect S step ex
            | Wait \<Rightarrow> executeWait S step ex
            | Verify \<Rightarrow> executeVerify S step ex
            | Screenshot \<Rightarrow> executeScreenshot S step ex
            | Extract \<Rightarrow> executeExtract S step ex
            | Conditional \<Rightarrow> (Inr (step_failure (''Unknown action: '' @ action_name (action step))), ex)
            | Loop \<Rightarrow> (Inr (step_failure (''Unknown action: '' @ action_name (action step))), ex))
         of
           (Inl msg, ex') \<Rightarrow> (step_failure msg, ex')
         | (Inr r, ex') \<Rightarrow> (r, ex')))"

section \<open>Running a workflow (WorkflowExecutor.executeWorkflow)\<close>

datatype StepStatus = StepSuccess | StepFailure | StepSkipped

datatype RunStatus = RunSuccess | RunFailure | RunPartial | RunSkipped

record StepOutcome =
  outcome_stepNumber :: int
  status :: StepStatus
  outcome_output :: "json option"
  outcome_error :: "string option"
  outcome_screenshot :: "string option"

record ExecutionResult =
  result_workflowId :: string
  run_status :: RunStatus
  stepResults :: "StepOutcome list"
  screenshots :: "string list"
  logs :: "string list"
  finalState :: ExecutionState
  run_critique :: CritiqueResult

definition record_outcome :: "SOPStep \<Rightarrow> StepResult \<Rightarrow> StepOutcome" where
  \<comment> \<open>the entry pushed right after a step's first attempt\<close>
  "record_outcome step r =
     \<lparr> outcome_stepNumber = stepNumber step,
       status = (if success r then StepSuccess else StepFailure),
       outcome_output = step_output r,
       outcome_error = step_error r,
       outcome_screenshot = step_screenshot r \<rparr>"

definition update_last :: "('a \<Rightarrow> 'a) \<Rightarrow> 'a list \<Rightarrow> 'a list" where
  \<comment> \<open>mutation of \<open>stepResults[stepResults.length - 1]\<close>, guarded by \<open>if (lastResult)\<close>\<close>
  "update_last f xs = (if xs = [] then xs else xs [length xs - 1 := f (xs ! (length xs - 1))])"

definition advance :: "SOPStep \<Rightarrow> 'w Executor \<Rightarrow> 'w Executor" where
  \<comment> \<open>\<open>this.executionState.currentStepNumber = step.stepNumber\<close>\<close>
  "advance step ex =
     ex \<lparr> executionState := (executionState ex) \<lparr> currentStepNumber := stepNumber step \<rparr> \<rparr>"

function retryStep :: "'w Session \<Rightarrow> SOPStep \<Rightarrow> int \<Rightarrow> int \<Rightarrow> 'w Executor
    \<Rightarrow> StepResult option \<times> 'w Executor" where
  \<comment> \<open>the retry loop from \<open>retryCount\<close> on; \<open>Some\<close> is the first successful re-attempt\<close>
  "retryStep S step maxR retryCount ex =
     (if retryCount < maxR then
        (case executeStep S step ex of
           (retryResult, ex') \<Rightarrow>
             if success retryResult then (Some retryResult, ex')
             else retryStep S step maxR (retryCount + 1) ex')
      else (None, ex))"
  by pat_completeness auto
termination
  by (relation "measure (\<lambda>(S, step, maxR, retryCount, ex). nat (maxR - retryCount))") auto

declare retryStep.simps [simp del]

definition step_strategy :: "SOPStep \<Rightarrow> Strategy option" where
  \<comment> \<open>\<open>step.errorHandling?.strategy\<close>\<close>
  "step_strategy step = (case errorHandling step of None \<Rightarrow> None | Some eh \<Rightarrow> Some (strategy eh))"

definition step_maxRetries :: "SOPStep \<Rightarrow> int" where
  \<comment> \<open>\<open>errorHandling.maxRetries ?? 3\<close>\<close>
  "step_maxRetries step =
     (case errorHandling step of
        None \<Rightarrow> 3
      | Some eh \<Rightarrow> (case maxRetries eh of None \<Rightarrow> 3 | Some n \<Rightarrow> n))"

fun runSteps :: "'w Session \<Rightarrow> SOPStep list \<Rightarrow> StepOutcome list \<Rightarrow> 'w Executor
    \<Rightarrow> StepOutcome list \<times> 'w Executor" where
  \<comment> \<open>the \<open>for\<close> loop over the remaining steps, with the outcomes recorded so far\<close>
  "runSteps S [] outcomes ex = (outcomes, ex)"
| "runSteps S (step # rest) outcomes ex =
     (case executeStep S step ex of
        (stepResult, ex1) \<Rightarrow>
          (let outcomes1 = outcomes @ [record_outcome step stepResult] in
           if \<not> success stepResult then
             (case step_strategy step of
                Some Abort \<Rightarrow> (outcomes1, ex1)
              | Some Retry \<Rightarrow>
                  (case retryStep S step (step_maxRetries step) 0 ex1 of
                     (Some retryResult, ex2) \<Rightarrow>
                       runSteps S rest
                         (update_last
                            (\<lambda>r. r \<lparr> status := StepSuccess, outcome_output := step_output retryResult \<rparr>)
                            outcomes1)
                         (advance step ex2)
                   | (None, ex2) \<Rightarrow> (outcomes1, ex2))
              | Some Skip \<Rightarrow>
                  runSteps S rest (update_last (\<lambda>r. r \<lparr> status := StepSkipped \<rparr>) outcomes1) ex1
              | Some Fallback \<Rightarrow> runSteps S rest outcomes1 (advance step ex1)
              | None \<Rightarrow> runSteps S rest outcomes1 (advance step ex1))
           else runSteps S rest outcomes1 (advance step ex1)))"

definition launch :: "'w Session \<Rightarrow> 'w Executor \<Rightarrow> (string + unit) \<times> 'w Executor" where
  \<comment> \<open>\<open>playwright.initialize()\<close>, then \<open>playwright.newPage()\<close>\<close>
  "launch S ex =
     await (initialize S)
       (\<lambda>_. await (newPage S) (\<lambda>_ ex'. (Inr (), ex' \<lparr> currentPage := True \<rparr>))) ex"

definition cleanup :: "'w Session \<Rightarrow> 'w Executor \<Rightarrow> 'w Executor" where
  "cleanup S ex =
     (if currentPage ex then ex \<lparr> currentPage := False, world := closePage S (world ex) \<rparr> else ex)"

definition completed_result :: "SOPWorkflow \<Rightarrow> StepOutcome list \<Rightarrow> ExecutionState \<Rightarrow> ExecutionResult" where
  \<comment> \<open>the result built after the loop; for an empty step list the source's coverage is
      \<open>0/0 = NaN\<close>, which has no rational counterpart (the quotient below is then 0)\<close>
  "completed_result workflow outcomes st =
     (let allSuccess = list_all (\<lambda>r. status r = StepSuccess) outcomes;
          anyFailure = list_ex (\<lambda>r. status r = StepFailure) outcomes
      in \<lparr> result_workflowId = workflow_id workflow,
           run_status = (if allSuccess then RunSuccess else if anyFailure then RunFailure else RunPartial),
           stepResults = outcomes,
           screenshots =
             map (\<lambda>r. ''step_'' @ show_int (outcome_stepNumber r) @ ''_screenshot.png'')
               (filter (\<lambda>r. truthy (outcome_screenshot r)) outcomes),
           logs = [],
           finalState = st,
           run_critique =
             \<lparr> phaseId = Execute,
               confidence =
                 \<lparr> overall = (if allSuccess then 9 / 10 else if anyFailure then 3 / 10 else 6 / 10),
                   dimensions =
                     \<lparr> completeness = (if length outcomes = length (steps workflow) then 1 else 1 / 2),
                       accuracy = (if allSuccess then 1 else 1 / 2),
                       feasibility = 1,
                       coverage = of_nat (length outcomes) / of_nat (length (steps workflow)) \<rparr>,
                   reasoning =
                     (if allSuccess then ''All steps completed successfully''
                      else if anyFailure then ''Some steps failed'' else ''Partial completion''),
                   humanReviewRequired = anyFailure \<rparr>,
               issues =
                 map (\<lambda>r. \<lparr> severity = High,
                             issue_description =
                               ''Step '' @ show_int (outcome_stepNumber r) @ '' failed: ''
                                 @ the (outcome_error r),
                             suggestion = None \<rparr>)
                   (filter (\<lambda>r. truthy (outcome_error r)) outcomes),
               autoCorrections = [] \<rparr> \<rparr>)"

definition exception_result :: "SOPWorkflow \<Rightarrow> StepOutcome list \<Rightarrow> string \<Rightarrow> ExecutionState \<Rightarrow> ExecutionResult" where
  \<comment> \<open>the result built by the \<open>catch\<close> block of \<open>executeWorkflow\<close>\<close>
  "exception_result workflow outcomes msg st =
     \<lparr> result_workflowId = workflow_id workflow,
       run_status = RunFailure,
       stepResults = outcomes,
       screenshots = [],
       logs = [msg],
       finalState = st,
       run_critique =
         \<lparr> phaseId = Execute,
           confidence =
             \<lparr> overall = 1 / 10,
               dimensions = \<lparr> completeness = 0, accuracy = 0, feasibility = 1 / 2, coverage = 0 \<rparr>,
               reasoning = ''Workflow execution failed with exception'',
               humanReviewRequired = True \<rparr>,
           issues = [\<lparr> severity = Critical, issue_description = ''Workflow failed: '' @ msg,
                       suggestion = None \<rparr>],
           autoCorrections = [] \<rparr> \<rparr>"

definition seed_state :: "SOPWorkflow \<Rightarrow> (string \<Rightarrow> json option) option \<Rightarrow> 'w Executor \<Rightarrow> 'w Executor" where
  \<comment> \<open>the state update before the loop: the workflow's id, and the user inputs spread over
      the variables\<close>
  "seed_state workflow userInputs ex =
     ex \<lparr> executionState := (executionState ex)
          \<lparr> state_workflowId := workflow_id workflow,
            variables := variables (executionState ex)
                           ++ (case userInputs of None \<Rightarrow> Map.empty | Some u \<Rightarrow> u) \<rparr> \<rparr>"

definition executeWorkflow :: "'w Session \<Rightarrow> SOPWorkflow \<Rightarrow> (string \<Rightarrow> json option) option
    \<Rightarrow> 'w Executor \<Rightarrow> ExecutionResult \<times> 'w Executor" where
  \<comment> \<open>\<open>try\<close>: launch, seed the state, run the loop, build the result; \<open>catch\<close>: the
      only calls of the \<open>try\<close> block that can throw are the two of the launch, since
      \<open>executeStep\<close> catches whatever a step throws; \<open>finally\<close>: clean up\<close>
  "executeWorkflow S workflow userInputs ex =
     (case launch S ex of
        (Inl msg, ex1) \<Rightarrow> (exception_result workflow [] msg (executionState ex1), cleanup S ex1)
      | (Inr _, ex1) \<Rightarrow>
          (case runSteps S (steps workflow) [] (seed_state workflow userInputs ex1) of
             (outcomes, ex3) \<Rightarrow>
               (completed_result workflow outcomes (executionState ex3), cleanup S ex3)))"

section \<open>The execution agent (ExecuteAgent)\<close>

record 'w Storage =
  savePhaseData :: "ExecutionResult \<Rightarrow> 'w \<Rightarrow> (string + unit) \<times> 'w"
  saveTextFile :: "ExecutionState \<Rightarrow> 'w \<Rightarrow> (string + unit) \<times> 'w"
  saveBinaryFile :: "string \<Rightarrow> string \<Rightarrow> 'w \<Rightarrow> (string + unit) \<times> 'w"

definition and_then :: "('w \<Rightarrow> (string + 'a) \<times> 'w) \<Rightarrow> ('a \<Rightarrow> 'w \<Rightarrow> (string + 'b) \<times> 'w)
    \<Rightarrow> 'w \<Rightarrow> (string + 'b) \<times> 'w" where
  \<comment> \<open>two storage calls in sequence; an exception of the first skips the second\<close>
  "and_then call continue w =
     (case call w of (Inl msg, w') \<Rightarrow> (Inl msg, w') | (Inr v, w') \<Rightarrow> continue v w')"

definition is_word_char :: "char \<Rightarrow> bool" where
  \<comment> \<open>the class \<open>\\w\<close>\<close>
  "is_word_char c =
     (c \<in> set ''abcdefghijklmnopqrstuvwxyzABCDEFGHIJKLMNOPQRSTUVWXYZ0123456789_'')"

definition strip_data_url :: "string \<Rightarrow> string" where
  \<comment> \<open>\<open>s.replace(/^data:image\\/\\w+;base64,/, "")\<close>\<close>
  "strip_data_url s =
     (if starts_with ''data:image/'' s then
        (let rest = drop 11 s;
             kind = takeWhile is_word_char rest;
             after = dropWhile is_word_char rest
         in if kind \<noteq> [] \<and> starts_with '';base64,'' after then drop 8 after else s)
      else s)"

fun save_screenshots :: "'w Storage \<Rightarrow> StepOutcome list \<Rightarrow> 'w \<Rightarrow> (string + unit) \<times> 'w" where
  "save_screenshots St [] w = (Inr (), w)"
| "save_screenshots St (r # rs) w =
     (if truthy (outcome_screenshot r) then
        and_then
          (saveBinaryFile St (''step_'' @ show_int (outcome_stepNumber r) @ ''_screenshot.png'')
             (strip_data_url (the (outcome_screenshot r))))
          (\<lambda>_. save_screenshots St rs) w
      else save_screenshots St rs w)"

definition saveExecutionResults :: "'w Storage \<Rightarrow> ExecutionResult \<Rightarrow> ExecutionState \<Rightarrow> 'w
    \<Rightarrow> (string + unit) \<times> 'w" where
  "saveExecutionResults St result st =
     and_then (savePhaseData St result)
       (\<lambda>_. and_then (saveTextFile St st) (\<lambda>_. save_screenshots St (stepResults result)))"

definition execute :: "'w Storage \<Rightarrow> 'w Session \<Rightarrow> SOPWorkflow \<Rightarrow> (string \<Rightarrow> json option) option
    \<Rightarrow> 'w \<Rightarrow> (string + ExecutionResult) \<times> 'w" where
  \<comment> \<open>a new executor runs the workflow; the result is saved and returned. An exception of
      the storage is not caught here.\<close>
  "execute St S workflow userInputs w =
     (case executeWorkflow S workflow userInputs (new_executor w) of
        (result, ex) \<Rightarrow>
          and_then (saveExecutionResults St result (executionState ex)) (\<lambda>_ w'. (Inr result, w'))
            (world ex))"

definition batch_failure :: "SOPWorkflow \<Rightarrow> string \<Rightarrow> ExecutionResult" where
  \<comment> \<open>the result built by the \<open>catch\<close> block of \<open>executeBatch\<close>\<close>
  "batch_failure workflow msg =
     \<lparr> result_workflowId = workflow_id workflow,
       run_status = RunFailure,
       stepResults = [],
       screenshots = [],
       logs = [msg],
       finalState = \<lparr> state_workflowId = workflow_id workflow, variables = Map.empty,
                      currentStepNumber = 0, completedSteps = [], failedSteps = [] \<rparr>,
       run_critique =
         \<lparr> phaseId = Execute,
           confidence =
             \<lparr> overall = 0,
               dimensions = \<lparr> completeness = 0, accuracy = 0, feasibility = 0, coverage = 0 \<rparr>,
               reasoning = ''Execution failed with exception'',
               humanReviewRequired = True \<rparr>,
           issues = [\<lparr> severity = Critical, issue_description = msg, suggestion = None \<rparr>],
           autoCorrections = [] \<rparr> \<rparr>"

fun executeBatch :: "'w Storage \<Rightarrow> 'w Session \<Rightarrow> SOPWorkflow list
    \<Rightarrow> (string \<Rightarrow> (string \<Rightarrow> json option) option) \<Rightarrow> 'w \<Rightarrow> ExecutionResult list \<times> 'w" where
  "executeBatch St S [] userInputsMap w = ([], w)"
| "executeBatch St S (workflow # rest) userInputsMap w =
     (case execute St S workflow (userInputsMap (workflow_id workflow)) w of
        (Inr result, w1) \<Rightarrow>
          (case executeBatch St S rest userInputsMap w1 of
             (results, w2) \<Rightarrow> (result # results, w2))
      | (Inl msg, w1) \<Rightarrow>
          (case executeBatch St S rest userInputsMap w1 of
             (results, w2) \<Rightarrow> (batch_failure workflow msg # results, w2)))"

section \<open>Concrete collaborators\<close>

text \<open>
  Sessions and storages for concrete runs. The world of a session counts the clicks tried so
  far.
\<close>

definition flaky_session :: "nat \<Rightarrow> nat Session" where
  \<comment> \<open>every operation succeeds, except that the first \<open>k\<close> clicks throw\<close>
  "flaky_session k =
     \<lparr> initialize = (\<lambda>w. (Inr (), w)),
       newPage = (\<lambda>w. (Inr (), w)),
       closePage = (\<lambda>w. w),
       goto = (\<lambda>u w. (Inr (), w)),
       click = (\<lambda>sel w. (if w < k then Inl ''element is detached'' else Inr (), Suc w)),
       fill = (\<lambda>sel v w. (Inr (), w)),
       selectOption = (\<lambda>sel v w. (Inr (), w)),
       waitForSelector = (\<lambda>sel ms w. (Inr (), w)),
       sleep = (\<lambda>ms w. w),
       queryElement = (\<lambda>sel w. (Inr True, w)),
       isVisible = (\<lambda>sel w. (Inr True, w)),
       textContent = (\<lambda>sel w. (Inr (Some ''Welcome''), w)),
       inputValue = (\<lambda>sel w. (Inr ''alice'', w)),
       screenshot = (\<lambda>w. (Inr ''iVBORw0KGgo='', w)),
       faker = (\<lambda>kind w. (''Alice Example'', w)) \<rparr>"

definition broken_session :: "nat Session" where
  \<comment> \<open>the browser cannot be launched\<close>
  "broken_session = (flaky_session 0) \<lparr> initialize := (\<lambda>w. (Inl ''browser launch failed'', w)) \<rparr>"

definition steady_storage :: "nat Storage" where
  "steady_storage =
     \<lparr> savePhaseData = (\<lambda>r w. (Inr (), w)),
       saveTextFile = (\<lambda>st w. (Inr (), w)),
       saveBinaryFile = (\<lambda>file content w. (Inr (), w)) \<rparr>"

definition full_storage :: "nat Storage" where
  \<comment> \<open>no result can be written\<close>
  "full_storage = steady_storage \<lparr> savePhaseData := (\<lambda>r w. (Inl ''no space left on device'', w)) \<rparr>"

definition click_step :: "int \<Rightarrow> Strategy option \<Rightarrow> SOPStep" where
  \<comment> \<open>a click on the submit button, with the given error-handling strategy and two retries\<close>
  "click_step n s =
     \<lparr> stepNumber = n, action = Click, description = ''Press submit'',
       target = Some \<lparr> selector = Some ''#submit'', url = None, target_value = None \<rparr>,
       data = None, validation = None,
       errorHandling =
         (case s of
            None \<Rightarrow> None
          | Some st \<Rightarrow> Some \<lparr> strategy = st, maxRetries = Some 2, fallbackStepNumber = Some 1 \<rparr>) \<rparr>"

definition live :: "nat Executor" where
  \<comment> \<open>a fresh executor whose page is open, as the loop finds it after the launch\<close>
  "live = (new_executor 0) \<lparr> currentPage := True \<rparr>"

section \<open>JSON text\<close>

text \<open>
  \<open>JSON.stringify\<close> and \<open>JSON.parse\<close> on the values above. Text is ASCII; a number is an
  integer (the parser rejects a fraction or an exponent).
\<close>

definition hex_digit :: "nat \<Rightarrow> char" where
  "hex_digit d = ''0123456789abcdef'' ! d"

definition escape_char :: "char \<Rightarrow> string" where
  "escape_char c =
     (if c = CHR 0x22 then [CHR 0x5C, CHR 0x22]
      else if c = CHR 0x5C then [CHR 0x5C, CHR 0x5C]
      else if c = CHR 0x08 then [CHR 0x5C, CHR ''b'']
      else if c = CHR 0x0C then [CHR 0x5C, CHR ''f'']
      else if c = CHR 0x0A then [CHR 0x5C, CHR ''n'']
      else if c = CHR 0x0D then [CHR 0x5C, CHR ''r'']
      else if c = CHR 0x09 then [CHR 0x5C, CHR ''t'']
      else if of_char c < (32 :: nat)
        then [CHR 0x5C, CHR ''u'', CHR ''0'', CHR ''0'',
              hex_digit (of_char c div 16), hex_digit (of_char c mod 16)]
      else [c])"

definition quote :: "string \<Rightarrow> string" where
  "quote s = CHR 0x22 # concat (map escape_char s) @ [CHR 0x22]"

fun stringify :: "json \<Rightarrow> string"
  and stringify_items :: "json list \<Rightarrow> string"
  and stringify_members :: "(string \<times> json) list \<Rightarrow> string" where
  \<comment> \<open>\<open>JSON.stringify(v)\<close>\<close>
  "stringify JNull = ''null''"
| "stringify (JBool b) = (if b then ''true'' else ''false'')"
| "stringify (JNum n) = show_int n"
| "stringify (JStr s) = quote s"
| "stringify (JArr xs) = ''['' @ stringify_items xs @ '']''"
| "stringify (JObj kvs) = ''{'' @ stringify_members kvs @ ''}''"
| "stringify_items [] = []"
| "stringify_items (x # xs) = stringify x @ (if xs = [] then [] else '','' @ stringify_items xs)"
| "stringify_members [] = []"
| "stringify_members (kv # kvs) =
     quote (fst kv) @ '':'' @ stringify (snd kv) @ (if kvs = [] then [] else '','' @ stringify_members kvs)"

fun pretty :: "nat \<Rightarrow> json \<Rightarrow> string"
  and pretty_items :: "nat \<Rightarrow> json list \<Rightarrow> string"
  and pretty_members :: "nat \<Rightarrow> (string \<times> json) list \<Rightarrow> string" where
  \<comment> \<open>\<open>JSON.stringify(v, null, 2)\<close> at the given indentation\<close>
  "pretty ind JNull = ''null''"
| "pretty ind (JBool b) = (if b then ''true'' else ''false'')"
| "pretty ind (JNum n) = show_int n"
| "pretty ind (JStr s) = quote s"
| "pretty ind (JArr xs) =
     (if xs = [] then ''[]''
      else ''['' @ [CHR 0x0A] @ pretty_items (ind + 2) xs @ [CHR 0x0A] @ replicate ind CHR '' '' @ '']'')"
| "pretty ind (JObj kvs) =
     (if kvs = [] then ''{}''
      else ''{'' @ [CHR 0x0A] @ pretty_members (ind + 2) kvs @ [CHR 0x0A] @ replicate ind CHR '' '' @ ''}'')"
| "pretty_items ind [] = []"
| "pretty_items ind (x # xs) =
     replicate ind CHR '' '' @ pretty ind x
       @ (if xs = [] then [] else '','' @ [CHR 0x0A] @ pretty_items ind xs)"
| "pretty_members ind [] = []"
| "pretty_members ind (kv # kvs) =
     replicate ind CHR '' '' @ quote (fst kv) @ '': '' @ pretty ind (snd kv)
       @ (if kvs = [] then [] else '','' @ [CHR 0x0A] @ pretty_members ind kvs)"

definition is_json_space :: "char \<Rightarrow> bool" where
  "is_json_space c = (c = CHR '' '' \<or> c = CHR 0x09 \<or> c = CHR 0x0A \<or> c = CHR 0x0D)"

definition is_digit :: "char \<Rightarrow> bool" where
  "is_digit c = (c \<in> set ''0123456789'')"

definition digit_value :: "char \<Rightarrow> nat" where
  "digit_value c = of_char c - 48"

definition digits_value :: "string \<Rightarrow> nat" where
  "digits_value ds = foldl (\<lambda>n c. 10 * n + digit_value c) 0 ds"

definition hex_value :: "char \<Rightarrow> nat option" where
  "hex_value c =
     (if is_digit c then Some (of_char c - 48)
      else if c \<in> set ''abcdef'' then Some (of_char c - 87)
      else if c \<in> set ''ABCDEF'' then Some (of_char c - 55)
      else None)"

definition unicode_escape :: "string \<Rightarrow> char option" where
  \<comment> \<open>the four hexadecimal digits after \<open>\\u\<close>; only a code below 128 is accepted\<close>
  "unicode_escape hs =
     (case map hex_value hs of
        [Some a, Some b, Some c, Some d] \<Rightarrow>
          (if a = 0 \<and> b = 0 \<and> c < 8 then Some (char_of (16 * c + d)) else None)
      | _ \<Rightarrow> None)"

function parse_string_body :: "string \<Rightarrow> (string \<times> string) option" where
  \<comment> \<open>the characters of a string literal after its opening quote, and what follows it\<close>
  "parse_string_body [] = None"
| "parse_string_body (c # cs) =
     (if c = CHR 0x22 then Some ([], cs)
      else if c = CHR 0x5C then
        (case cs of
           [] \<Rightarrow> None
         | e # rest \<Rightarrow>
             (if e = CHR ''u'' then
                (case unicode_escape (take 4 rest) of
                   None \<Rightarrow> None
                 | Some u \<Rightarrow> map_option (\<lambda>p. (u # fst p, snd p)) (parse_string_body (drop 4 rest)))
              else
                (case (if e = CHR 0x22 then Some (CHR 0x22)
                       else if e = CHR 0x5C then Some (CHR 0x5C)
                       else if e = CHR ''/'' then Some (CHR ''/'')
                       else if e = CHR ''b'' then Some (CHR 0x08)
                       else if e = CHR ''f'' then Some (CHR 0x0C)
                       else if e = CHR ''n'' then Some (CHR 0x0A)
                       else if e = CHR ''r'' then Some (CHR 0x0D)
                       else if e = CHR ''t'' then Some (CHR 0x09)
                       else None) of
                   None \<Rightarrow> None
                 | Some u \<Rightarrow> map_option (\<lambda>p. (u # fst p, snd p)) (parse_string_body rest))))
      else if of_char c < (32 :: nat) then None
      else map_option (\<lambda>p. (c # fst p, snd p)) (parse_string_body cs))"
  by pat_completeness auto
termination
  by (relation "measure length") auto

definition parse_number :: "string \<Rightarrow> (json \<times> string) option" where
  \<comment> \<open>an integer literal; a fraction or an exponent is rejected\<close>
  "parse_number s =
     (let neg = (s \<noteq> [] \<and> hd s = CHR ''-'');
          body = (if neg then tl s else s);
          ds = takeWhile is_digit body;
          rest = dropWhile is_digit body
      in if ds = [] \<or> (length ds > 1 \<and> hd ds = CHR ''0'') then None
         else if rest \<noteq> [] \<and> hd rest \<in> set ''.eE'' then None
         else Some (JNum (if neg then - int (digits_value ds) else int (digits_value ds)), rest))"

fun parse_value :: "nat \<Rightarrow> string \<Rightarrow> (json \<times> string) option"
  and parse_items :: "nat \<Rightarrow> string \<Rightarrow> (json list \<times> string) option"
  and parse_members :: "nat \<Rightarrow> string \<Rightarrow> ((string \<times> json) list \<times> string) option" where
  \<comment> \<open>recursive descent; the first argument bounds the number of nested calls\<close>
  "parse_value 0 s = None"
| "parse_value (Suc n) s =
     (case dropWhile is_json_space s of
        [] \<Rightarrow> None
      | c # cs \<Rightarrow>
          if c = CHR ''n'' then (if starts_with ''ull'' cs then Some (JNull, drop 3 cs) else None)
          else if c = CHR ''t'' then (if starts_with ''rue'' cs then Some (JBool True, drop 3 cs) else None)
          else if c = CHR ''f'' then (if starts_with ''alse'' cs then Some (JBool False, drop 4 cs) else None)
          else if c = CHR 0x22 then map_option (\<lambda>p. (JStr (fst p), snd p)) (parse_string_body cs)
          else if c = CHR ''['' then
            (case dropWhile is_json_space cs of
               [] \<Rightarrow> None
             | d # ds \<Rightarrow>
                 if d = CHR '']'' then Some (JArr [], ds)
                 else map_option (\<lambda>p. (JArr (fst p), snd p)) (parse_items n cs))
          else if c = CHR ''{'' then
            (case dropWhile is_json_space cs of
               [] \<Rightarrow> None
             | d # ds \<Rightarrow>
                 if d = CHR ''}'' then Some (JObj [], ds)
                 else map_option (\<lambda>p. (JObj (fst p), snd p)) (parse_members n cs))
          else parse_number (c # cs))"
| "parse_items 0 s = None"
| "parse_items (Suc n) s =
     (case parse_value n s of
        None \<Rightarrow> None
      | Some (v, r) \<Rightarrow>
          (case dropWhile is_json_space r of
             [] \<Rightarrow> None
           | d # ds \<Rightarrow>
               if d = CHR '']'' then Some ([v], ds)
               else if d = CHR '','' then map_option (\<lambda>p. (v # fst p, snd p)) (parse_items n ds)
               else None))"
| "parse_members 0 s = None"
| "parse_members (Suc n) s =
     (case dropWhile is_json_space s of
        [] \<Rightarrow> None
      | q # qs \<Rightarrow>
          if q \<noteq> CHR 0x22 then None
          else
            (case parse_string_body qs of
               None \<Rightarrow> None
             | Some (k, r) \<Rightarrow>
                 (case dropWhile is_json_space r of
                    [] \<Rightarrow> None
                  | colon # r1 \<Rightarrow>
                      if colon \<noteq> CHR '':'' then None
                      else
                        (case parse_value n r1 of
                           None \<Rightarrow> None
                         | Some (v, r2) \<Rightarrow>
                             (case dropWhile is_json_space r2 of
                                [] \<Rightarrow> None
                              | d # ds \<Rightarrow>
                                  if d = CHR ''}'' then Some ([(k, v)], ds)
                                  else if d = CHR '','' then
                                    map_option (\<lambda>p. ((k, v) # fst p, snd p)) (parse_members n ds)
                                  else None)))))"

definition json_parse :: "string \<Rightarrow> json option" where
  \<comment> \<open>\<open>JSON.parse(s)\<close>; \<open>None\<close> is the \<open>SyntaxError\<close>. Of two nested calls in a row
      at least one consumes a character, hence the bound of twice the length of the text.\<close>
  "json_parse s =
     (case parse_value (2 * length s + 2) s of
        None \<Rightarrow> None
      | Some (v, r) \<Rightarrow> if dropWhile is_json_space r = [] then Some v else None)"

definition js_get :: "string \<Rightarrow> json \<Rightarrow> json option" where
  \<comment> \<open>property \<open>k\<close> of a parsed value; the last of several equal keys wins\<close>
  "js_get k v = (case v of JObj kvs \<Rightarrow> map_of (rev kvs) k | _ \<Rightarrow> None)"

section \<open>Writing a workflow as markdown (SOPFormatter.toMarkdown)\<close>

fun source_name :: "Source \<Rightarrow> string" where
  "source_name User = ''user''"
| "source_name Faker = ''faker''"
| "source_name State = ''state''"
| "source_name Constant = ''constant''"

fun validation_type_name :: "ValidationType \<Rightarrow> string" where
  "validation_type_name Exists = ''exists''"
| "validation_type_name Visible = ''visible''"
| "validation_type_name Text = ''text''"
| "validation_type_name Value = ''value''"
| "validation_type_name Count = ''count''"
| "validation_type_name Custom = ''custom''"

fun strategy_name :: "Strategy \<Rightarrow> string" where
  "strategy_name Retry = ''retry''"
| "strategy_name Skip = ''skip''"
| "strategy_name Abort = ''abort''"
| "strategy_name Fallback = ''fallback''"

fun complexity_name :: "Complexity \<Rightarrow> string" where
  "complexity_name Simple = ''simple''"
| "complexity_name Moderate = ''medium''"
| "complexity_name Complex = ''complex''"

definition opt_member :: "string \<Rightarrow> 'a option \<Rightarrow> ('a \<Rightarrow> json) \<Rightarrow> (string \<times> json) list" where
  \<comment> \<open>an optional property: absent when undefined\<close>
  "opt_member k v f = (case v of None \<Rightarrow> [] | Some x \<Rightarrow> [(k, f x)])"

definition target_object :: "Target \<Rightarrow> json" where
  "target_object t =
     JObj (opt_member ''selector'' (selector t) JStr @ opt_member ''url'' (url t) JStr
           @ opt_member ''value'' (target_value t) JStr)"

definition data_object :: "StepData \<Rightarrow> json" where
  "data_object d =
     JObj ([(''source'', JStr (source_name (source d)))] @ opt_member ''field'' (field d) JStr
           @ opt_member ''fakerMethod'' (fakerMethod d) JStr @ opt_member ''value'' (data_value d) id)"

definition validation_object :: "Validation \<Rightarrow> json" where
  "validation_object v =
     JObj ([(''type'', JStr (validation_type_name (validation_type v)))]
           @ opt_member ''expected'' (expected v) id @ opt_member ''timeout'' (timeout v) JNum)"

definition errorHandling_object :: "ErrorHandling \<Rightarrow> json" where
  "errorHandling_object eh =
     JObj ([(''strategy'', JStr (strategy_name (strategy eh)))]
           @ opt_member ''maxRetries'' (maxRetries eh) JNum
           @ opt_member ''fallbackStepNumber'' (fallbackStepNumber eh) JNum)"

definition step_block_object :: "SOPStep \<Rightarrow> json" where
  \<comment> \<open>the object literal that \<open>toMarkdown\<close> serialises into a step's fenced block\<close>
  "step_block_object step =
     JObj ([(''stepNumber'', JNum (stepNumber step)),
            (''action'', JStr (action_name (action step)))]
           @ opt_member ''target'' (target step) target_object
           @ opt_member ''data'' (data step) data_object
           @ opt_member ''validation'' (validation step) validation_object
           @ opt_member ''errorHandling'' (errorHandling step) errorHandling_object)"

definition formatTarget :: "Target \<Rightarrow> string" where
  "formatTarget t =
     (case selector t of
        Some s \<Rightarrow> ''`'' @ s @ ''`''
      | None \<Rightarrow>
          (case url t of
             Some u \<Rightarrow> ''`'' @ u @ ''`''
           | None \<Rightarrow> stringify (target_object t)))"

definition formatData :: "StepData \<Rightarrow> string" where
  "formatData d = ''`'' @ stringify (data_object d) @ ''`''"

definition formatValidation :: "Validation \<Rightarrow> string" where
  "formatValidation v =
     ''Type: '' @ validation_type_name (validation_type v)
       @ '', Expected: '' @ (case expected v of None \<Rightarrow> ''undefined'' | Some e \<Rightarrow> stringify e)
       @ (case timeout v of
            None \<Rightarrow> []
          | Some t \<Rightarrow> if t = 0 then [] else '', Timeout: '' @ show_int t @ ''ms'')"

definition step_lines :: "SOPStep \<Rightarrow> string list" where
  "step_lines step =
     [''### Step '' @ show_int (stepNumber step) @ '': '' @ description step,
      [],
      ''**Action**: `'' @ action_name (action step) @ ''`'']
     @ (case target step of None \<Rightarrow> [] | Some t \<Rightarrow> [''**Target**: '' @ formatTarget t])
     @ (case data step of None \<Rightarrow> [] | Some d \<Rightarrow> [''**Data**: '' @ formatData d])
     @ (case validation step of None \<Rightarrow> [] | Some v \<Rightarrow> [''**Validation**: '' @ formatValidation v])
     @ (case errorHandling step of
          None \<Rightarrow> []
        | Some eh \<Rightarrow>
            [''**Error Handling**:'',
             ''- Strategy: '' @ strategy_name (strategy eh),
             ''- Max Retries: '' @ (case maxRetries eh of None \<Rightarrow> ''undefined'' | Some n \<Rightarrow> show_int n)]
            @ (case fallbackStepNumber eh of
                 None \<Rightarrow> []
               | Some n \<Rightarrow> [''- Fallback Step: '' @ show_int n]))
     @ [[], ''```json'', pretty 0 (step_block_object step), ''```'', []]"

definition input_line :: "RequiredInput \<Rightarrow> string" where
  "input_line inp =
     ''| '' @ input_field inp @ '' | '' @ input_type inp @ '' | ''
       @ (if required inp then ''Yes'' else ''No'') @ '' | ''
       @ js_String (nullish_or (defaultValue inp) (JStr ''-'')) @ '' |''"

fun criterion_lines :: "nat \<Rightarrow> SuccessCriterion list \<Rightarrow> string list" where
  "criterion_lines index [] = []"
| "criterion_lines index (c # cs) =
     [show_int (int index + 1) @ ''. '' @ criterion_description c,
      ''   Validation: '' @ criterion_validation c] @ criterion_lines (Suc index) cs"

fun join_lines :: "string list \<Rightarrow> string" where
  \<comment> \<open>\<open>lines.join("\\n")\<close>\<close>
  "join_lines [] = []"
| "join_lines [l] = l"
| "join_lines (l # ls) = l @ [CHR 0x0A] @ join_lines ls"

definition toMarkdown :: "SOPWorkflow \<Rightarrow> string" where
  "toMarkdown workflow =
     join_lines
       ([''# SOP: '' @ name workflow,
         [],
         ''> **Generated**: '' @ workflow_timestamp workflow,
         ''> **ID**: `'' @ workflow_id workflow @ ''`'',
         ''> **Description**: '' @ workflow_description workflow,
         ''> **Complexity**: '' @ complexity_name (complexity workflow),
         []]
        @ (if length (requiredInputs workflow) > 0 then
             [''## Required Inputs'', [],
              ''| Field | Type | Required | Default |'',
              ''|-------|------|----------|---------|'']
             @ map input_line (requiredInputs workflow) @ [[]]
           else [])
        @ [''## Workflow Steps'', []]
        @ concat (map step_lines (steps workflow))
        @ (if length (successCriteria workflow) > 0 then
             [''## Success Criteria'', []] @ criterion_lines 0 (successCriteria workflow) @ [[]]
           else []))"

section \<open>Reading a workflow from markdown (SOPParser.fromMarkdown)\<close>

definition is_space :: "char \<Rightarrow> bool" where
  \<comment> \<open>the ASCII part of \<open>\\s\<close>, which is also what \<open>trim\<close> removes\<close>
  "is_space c = (c = CHR '' '' \<or> (9 \<le> (of_char c :: nat) \<and> (of_char c :: nat) \<le> 13))"

definition is_line_terminator :: "char \<Rightarrow> bool" where
  "is_line_terminator c = (c = CHR 0x0A \<or> c = CHR 0x0D)"

definition trim :: "string \<Rightarrow> string" where
  "trim s = rev (dropWhile is_space (rev (dropWhile is_space s)))"

fun split_on :: "char \<Rightarrow> string \<Rightarrow> string list" where
  \<comment> \<open>\<open>s.split(sep)\<close> for a separator of one character\<close>
  "split_on sep [] = [[]]"
| "split_on sep (c # cs) =
     (if c = sep then [] # split_on sep cs
      else (case split_on sep cs of [] \<Rightarrow> [[c]] | p # ps \<Rightarrow> (c # p) # ps))"

definition ws_then_rest :: "string \<Rightarrow> string option" where
  \<comment> \<open>the tail \<open>\\s+(.+)$\<close> of the parser's patterns, matched at the start of \<open>s\<close>: the
      group is what follows the white space; when nothing follows, the white space gives its
      last character back to the group\<close>
  "ws_then_rest s =
     (let ws = takeWhile is_space s; rest = dropWhile is_space s
      in if ws = [] then None
         else if rest \<noteq> [] then (if list_ex is_line_terminator rest then None else Some rest)
         else if length ws \<ge> 2 \<and> \<not> is_line_terminator (last ws) then Some [last ws]
         else None)"

definition title_match :: "string \<Rightarrow> string option" where
  \<comment> \<open>\<open>/^#\\s+SOP:\\s+(.+)$/\<close>\<close>
  "title_match l =
     (case l of
        [] \<Rightarrow> None
      | c # r \<Rightarrow>
          if c \<noteq> CHR ''#'' \<or> takeWhile is_space r = [] then None
          else if starts_with ''SOP:'' (dropWhile is_space r)
            then ws_then_rest (drop 4 (dropWhile is_space r))
          else None)"

definition meta_at :: "string \<Rightarrow> (string \<times> string) option" where
  \<comment> \<open>\<open>\\s+\\*\\*(\\w+)\\*\\*:\\s+(.+)$\<close> right after the character \<open>>\<close>\<close>
  "meta_at s =
     (let r1 = dropWhile is_space s in
      if takeWhile is_space s = [] \<or> \<not> starts_with ''**'' r1 then None
      else
        (let key = takeWhile is_word_char (drop 2 r1); r3 = dropWhile is_word_char (drop 2 r1)
         in if key = [] \<or> \<not> starts_with ''**:'' r3 then None
            else map_option (\<lambda>v. (key, v)) (ws_then_rest (drop 3 r3))))"

fun meta_match :: "string \<Rightarrow> (string \<times> string) option" where
  \<comment> \<open>\<open>/>\\s+\\*\\*(\\w+)\\*\\*:\\s+(.+)$/\<close>, at the leftmost position where it matches\<close>
  "meta_match [] = None"
| "meta_match (c # cs) =
     (if c = CHR ''>'' then (case meta_at cs of Some m \<Rightarrow> Some m | None \<Rightarrow> meta_match cs)
      else meta_match cs)"

definition criterion_match :: "string \<Rightarrow> string option" where
  \<comment> \<open>\<open>/^\\d+\\.\\s+(.+)$/\<close>\<close>
  "criterion_match l =
     (let r = dropWhile is_digit l in
      if takeWhile is_digit l = [] \<or> \<not> starts_with ''.'' r then None else ws_then_rest (drop 1 r))"

fun validation_match :: "string \<Rightarrow> string option" where
  \<comment> \<open>\<open>/Validation:\\s+(.+)$/\<close>, at the leftmost position where it matches\<close>
  "validation_match [] = None"
| "validation_match (c # cs) =
     (if starts_with ''Validation:'' (c # cs) then
        (case ws_then_rest (drop 11 (c # cs)) of Some v \<Rightarrow> Some v | None \<Rightarrow> validation_match cs)
      else validation_match cs)"

definition step_heading :: "string \<Rightarrow> bool" where
  \<comment> \<open>\<open>/^###\\s+Step\\s+(\\d+):\\s+(.+)$/\<close>; the parser reads neither group\<close>
  "step_heading l =
     (starts_with ''###'' l \<and> takeWhile is_space (drop 3 l) \<noteq> [] \<and>
      (let r1 = dropWhile is_space (drop 3 l) in
       starts_with ''Step'' r1 \<and> takeWhile is_space (drop 4 r1) \<noteq> [] \<and>
       (let r2 = dropWhile is_space (drop 4 r1) in
        takeWhile is_digit r2 \<noteq> [] \<and> starts_with '':'' (dropWhile is_digit r2) \<and>
        ws_then_rest (drop 1 (dropWhile is_digit r2)) \<noteq> None)))"

text \<open>
  The parser's local variables. The steps are the values that \<open>JSON.parse\<close> returned,
  not yet checked against the schema.
\<close>

record ParseState =
  currentSection :: "string option"
  meta_timestamp :: "string option"
  meta_id :: "string option"
  meta_description :: "string option"
  meta_complexity :: "string option"
  raw_steps :: "json list"
  parsed_inputs :: "RequiredInput list"
  parsed_criteria :: "SuccessCriterion list"

definition initial_parse_state :: ParseState where
  "initial_parse_state =
     \<lparr> currentSection = None, meta_timestamp = None, meta_id = None, meta_description = None,
       meta_complexity = None, raw_steps = [], parsed_inputs = [], parsed_criteria = [] \<rparr>"

definition apply_meta :: "string \<Rightarrow> ParseState \<Rightarrow> ParseState" where
  "apply_meta l st =
     (case meta_match l of
        None \<Rightarrow> st
      | Some (key, val) \<Rightarrow>
          if key = ''Generated'' then st \<lparr> meta_timestamp := Some val \<rparr>
          else if key = ''ID'' then st \<lparr> meta_id := Some (filter (\<lambda>c. c \<noteq> CHR 0x60) val) \<rparr>
          else if key = ''Description'' then st \<lparr> meta_description := Some val \<rparr>
          else if key = ''Complexity'' then st \<lparr> meta_complexity := Some val \<rparr>
          else st)"

definition table_row :: "string \<Rightarrow> ParseState \<Rightarrow> ParseState" where
  "table_row l st =
     (if starts_with ''|'' l \<and> \<not> js_includes l ''---'' then
        (let parts = filter (\<lambda>p. p \<noteq> []) (map trim (split_on CHR ''|'' l)) in
         if length parts \<ge> 4 \<and> parts ! 0 \<noteq> ''Field'' then
           st \<lparr> parsed_inputs := parsed_inputs st @
                  [\<lparr> input_field = parts ! 0, input_type = parts ! 1,
                     required = (parts ! 2 = ''Yes''),
                     defaultValue = (if parts ! 3 = ''-'' then None else Some (JStr (parts ! 3))) \<rparr>] \<rparr>
         else st)
      else st)"

definition push_block :: "string list \<Rightarrow> ParseState \<Rightarrow> ParseState" where
  \<comment> \<open>the lines of a fenced block, each followed by a newline, go through \<open>JSON.parse\<close>;
      a syntax error is logged and the block is dropped\<close>
  "push_block block st =
     (case json_parse (concat (map (\<lambda>l. l @ [CHR 0x0A]) block)) of
        None \<Rightarrow> st
      | Some v \<Rightarrow> st \<lparr> raw_steps := raw_steps st @ [v] \<rparr>)"

function parse_lines :: "ParseState \<Rightarrow> string list \<Rightarrow> ParseState" where
  \<comment> \<open>the \<open>for\<close> loop over the lines after the first\<close>
  "parse_lines st [] = st"
| "parse_lines st (raw # rest) =
     (let line = trim raw in
      if line = [] then parse_lines st rest
      else if starts_with ''>'' line then parse_lines (apply_meta line st) rest
      else if starts_with ''## '' line
        then parse_lines (st \<lparr> currentSection := Some (trim (drop 3 line)) \<rparr>) rest
      else if currentSection st = Some ''Success Criteria'' then
        (case criterion_match line of
           None \<Rightarrow> parse_lines st rest
         | Some d \<Rightarrow>
             parse_lines
               (st \<lparr> parsed_criteria := parsed_criteria st @
                      [\<lparr> criterion_description = d,
                         criterion_validation =
                           (case validation_match (case rest of [] \<Rightarrow> [] | l # _ \<Rightarrow> trim l) of
                              None \<Rightarrow> [] | Some v \<Rightarrow> v) \<rparr>] \<rparr>)
               (drop 1 rest))
      else if currentSection st = Some ''Required Inputs'' then parse_lines (table_row line st) rest
      else if currentSection st = Some ''Workflow Steps'' then
        (if step_heading line then parse_lines st rest
         else if line = ''```json'' then
           parse_lines (push_block (takeWhile (\<lambda>l. trim l \<noteq> ''```'') rest) st)
             (drop 1 (dropWhile (\<lambda>l. trim l \<noteq> ''```'') rest))
         else parse_lines st rest)
      else parse_lines st rest)"
  by pat_completeness auto
termination
proof (relation "measure (\<lambda>(st, ls). length ls)")
  show "wf (measure (\<lambda>(st, ls). length ls))" by simp
next
  fix st :: ParseState and raw :: string and rest :: "string list" and line :: string
  have "length (dropWhile (\<lambda>l. trim l \<noteq> ''```'') rest) \<le> length rest"
    by (rule length_dropWhile_le)
  then show "((push_block (takeWhile (\<lambda>l. trim l \<noteq> ''```'') rest) st,
               drop 1 (dropWhile (\<lambda>l. trim l \<noteq> ''```'') rest)), st, raw # rest)
             \<in> measure (\<lambda>(st, ls). length ls)"
    by simp
qed simp_all

declare parse_lines.simps [simp del]

subsection \<open>The schema check\<close>

text \<open>
  The checks of the schema library on an identifier and on a timestamp, and the fresh
  identifier and the current time that the parser falls back to, are parameters.
\<close>

record ParseEnv =
  is_uuid :: "string \<Rightarrow> bool"
  is_datetime :: "string \<Rightarrow> bool"
  randomUUID :: string
  now :: string

datatype parse_error = InvalidWorkflowStructure | TypeError

definition req_string :: "json option \<Rightarrow> string option" where
  "req_string j = (case j of Some (JStr s) \<Rightarrow> Some s | _ \<Rightarrow> None)"

definition req_number :: "json option \<Rightarrow> int option" where
  "req_number j = (case j of Some (JNum n) \<Rightarrow> Some n | _ \<Rightarrow> None)"

definition opt_string :: "json option \<Rightarrow> string option option" where
  \<comment> \<open>an optional string: absent, or present and a string; anything else is an issue\<close>
  "opt_string j = (case j of None \<Rightarrow> Some None | Some (JStr s) \<Rightarrow> Some (Some s) | _ \<Rightarrow> None)"

definition opt_number :: "json option \<Rightarrow> int option option" where
  "opt_number j = (case j of None \<Rightarrow> Some None | Some (JNum n) \<Rightarrow> Some (Some n) | _ \<Rightarrow> None)"

definition req_enum :: "(string \<times> 'a) list \<Rightarrow> json option \<Rightarrow> 'a option" where
  "req_enum names j = (case j of Some (JStr s) \<Rightarrow> map_of names s | _ \<Rightarrow> None)"

definition opt_object :: "(json \<Rightarrow> 'a option) \<Rightarrow> json option \<Rightarrow> 'a option option" where
  "opt_object schema j =
     (case j of
        None \<Rightarrow> Some None
      | Some (JObj kvs) \<Rightarrow> map_option Some (schema (JObj kvs))
      | _ \<Rightarrow> None)"

definition target_schema :: "json \<Rightarrow> Target option" where
  "target_schema v =
     (case (opt_string (js_get ''selector'' v), opt_string (js_get ''url'' v),
            opt_string (js_get ''value'' v)) of
        (Some s, Some u, Some x) \<Rightarrow> Some \<lparr> selector = s, url = u, target_value = x \<rparr>
      | _ \<Rightarrow> None)"

definition data_schema :: "json \<Rightarrow> StepData option" where
  "data_schema v =
     (case (req_enum [(''user'', User), (''faker'', Faker), (''state'', State), (''constant'', Constant)]
              (js_get ''source'' v),
            opt_string (js_get ''field'' v), opt_string (js_get ''fakerMethod'' v)) of
        (Some s, Some f, Some m) \<Rightarrow>
          Some \<lparr> source = s, field = f, fakerMethod = m, data_value = js_get ''value'' v \<rparr>
      | _ \<Rightarrow> None)"

definition validation_schema :: "json \<Rightarrow> Validation option" where
  "validation_schema v =
     (case (req_enum [(''exists'', Exists), (''visible'', Visible), (''text'', Text),
                      (''value'', Value), (''count'', Count), (''custom'', Custom)]
              (js_get ''type'' v),
            opt_number (js_get ''timeout'' v)) of
        (Some t, Some ms) \<Rightarrow>
          Some \<lparr> validation_type = t, expected = js_get ''expected'' v, timeout = ms \<rparr>
      | _ \<Rightarrow> None)"

definition errorHandling_schema :: "json \<Rightarrow> ErrorHandling option" where
  "errorHandling_schema v =
     (case (req_enum [(''retry'', Retry), (''skip'', Skip), (''abort'', Abort), (''fallback'', Fallback)]
              (js_get ''strategy'' v),
            opt_number (js_get ''maxRetries'' v), opt_number (js_get ''fallbackStepNumber'' v)) of
        (Some s, Some n, Some f) \<Rightarrow>
          Some \<lparr> strategy = s, maxRetries = n, fallbackStepNumber = f \<rparr>
      | _ \<Rightarrow> None)"

definition step_schema :: "json \<Rightarrow> SOPStep option" where
  \<comment> \<open>\<open>SOPStepSchema\<close>: \<open>stepNumber\<close>, \<open>action\<close> and \<open>description\<close> are required\<close>
  "step_schema v =
     (case v of
        JObj kvs \<Rightarrow>
          (case (req_number (js_get ''stepNumber'' v),
                 req_enum [(''navigate'', Navigate), (''click'', Click), (''input'', Input),
                           (''select'', Select), (''wait'', Wait), (''verify'', Verify),
                           (''screenshot'', Screenshot), (''extract'', Extract),
                           (''conditional'', Conditional), (''loop'', Loop)]
                   (js_get ''action'' v),
                 req_string (js_get ''description'' v),
                 opt_object target_schema (js_get ''target'' v),
                 opt_object data_schema (js_get ''data'' v),
                 opt_object validation_schema (js_get ''validation'' v),
                 opt_object errorHandling_schema (js_get ''errorHandling'' v)) of
             (Some n, Some a, Some d, Some t, Some dt, Some vl, Some eh) \<Rightarrow>
               Some \<lparr> stepNumber = n, action = a, description = d, target = t, data = dt,
                      validation = vl, errorHandling = eh \<rparr>
           | _ \<Rightarrow> None)
      | _ \<Rightarrow> None)"

fun all_steps :: "json list \<Rightarrow> SOPStep list option" where
  "all_steps [] = Some []"
| "all_steps (v # vs) =
     (case (step_schema v, all_steps vs) of
        (Some s, Some ss) \<Rightarrow> Some (s # ss)
      | _ \<Rightarrow> None)"

definition raw_stepNumber :: "json \<Rightarrow> int option" where
  "raw_stepNumber v = req_number (js_get ''stepNumber'' v)"

definition sort_raw_steps :: "json list \<Rightarrow> parse_error + json list" where
  \<comment> \<open>\<open>steps.sort((a, b) => a.stepNumber - b.stepNumber)\<close> on the parsed values: reading
      a property of \<open>null\<close> throws; when a step number is not a number the comparison is
      \<open>NaN\<close> and the order is left as it is\<close>
  "sort_raw_steps vs =
     (if length vs \<ge> 2 \<and> JNull \<in> set vs then Inl TypeError
      else if list_all (\<lambda>v. raw_stepNumber v \<noteq> None) vs
        then Inr (sort_key (\<lambda>v. the (raw_stepNumber v)) vs)
      else Inr vs)"

definition or_default :: "string option \<Rightarrow> string \<Rightarrow> string" where
  \<comment> \<open>\<open>v || d\<close> on a string that may be undefined\<close>
  "or_default v d = (case v of None \<Rightarrow> d | Some s \<Rightarrow> if s = [] then d else s)"

definition fromMarkdown :: "ParseEnv \<Rightarrow> string \<Rightarrow> parse_error + SOPWorkflow" where
  "fromMarkdown env markdown =
     (let ls = split_on (CHR 0x0A) markdown;
          st = parse_lines initial_parse_state (drop 1 ls)
      in case sort_raw_steps (raw_steps st) of
           Inl e \<Rightarrow> Inl e
         | Inr ordered \<Rightarrow>
             (case (all_steps ordered,
                    map_of [(''simple'', Simple), (''medium'', Moderate), (''complex'', Complex)]
                      (or_default (meta_complexity st) ''medium'')) of
                (Some ss, Some cx) \<Rightarrow>
                  if is_uuid env (or_default (meta_id st) (randomUUID env)) \<and>
                     is_datetime env (or_default (meta_timestamp st) (now env)) \<and>
                     is_datetime env (now env)
                  then Inr \<lparr> workflow_id = or_default (meta_id st) (randomUUID env),
                             name = or_default (title_match (hd ls)) ''Untitled Workflow'',
                             workflow_description = or_default (meta_description st) [],
                             metadataIds = [],
                             workflow_timestamp = or_default (meta_timestamp st) (now env),
                             steps = ss,
                             requiredInputs = parsed_inputs st,
                             successCriteria = parsed_criteria st,
                             estimatedDuration = 0,
                             complexity = cx,
                             tags = [],
                             critique = parsed_critique \<rparr>
                  else Inl InvalidWorkflowStructure
              | _ \<Rightarrow> Inl InvalidWorkflowStructure))"

definition lenient_env :: ParseEnv where
  \<comment> \<open>an environment whose checks accept every identifier and every timestamp\<close>
  "lenient_env =
     \<lparr> is_uuid = (\<lambda>s. True), is_datetime = (\<lambda>s. True),
       randomUUID = ''00000000-0000-4000-8000-000000000000'', now = ''2024-01-02T03:04:05.000Z'' \<rparr>"

section \<open>Notions used to state the properties\<close>

fun after_attempts :: "'w Session \<Rightarrow> SOPStep \<Rightarrow> nat \<Rightarrow> 'w Executor \<Rightarrow> 'w Executor" where
  \<comment> \<open>the executor after \<open>k\<close> back-to-back executions of the step\<close>
  "after_attempts S step 0 ex = ex"
| "after_attempts S step (Suc k) ex = after_attempts S step k (snd (executeStep S step ex))"

definition attempt :: "'w Session \<Rightarrow> SOPStep \<Rightarrow> nat \<Rightarrow> 'w Executor \<Rightarrow> StepResult" where
  \<comment> \<open>the result of execution number \<open>k + 1\<close> in such a sequence\<close>
  "attempt S step k ex = fst (executeStep S step (after_attempts S step k ex))"

definition failed_cleanly :: "'w Executor \<Rightarrow> (string + StepResult) \<times> 'w Executor \<Rightarrow> bool" where
  \<comment> \<open>an action that throws or fails leaves the execution state as it was, and a failed
      result carries an error text and nothing else\<close>
  "failed_cleanly ex p =
     (case p of
        (Inl msg, ex') \<Rightarrow> executionState ex' = executionState ex
      | (Inr r, ex') \<Rightarrow>
          \<not> success r \<longrightarrow>
            step_error r \<noteq> None \<and> step_output r = None \<and> step_screenshot r = None \<and>
            executionState ex' = executionState ex)"

definition with_strategy :: "Strategy \<Rightarrow> SOPStep \<Rightarrow> SOPStep" where
  \<comment> \<open>the same step under another error-handling strategy\<close>
  "with_strategy s step =
     step \<lparr> errorHandling :=
       Some (case errorHandling step of
               None \<Rightarrow> \<lparr> strategy = s, maxRetries = None, fallbackStepNumber = None \<rparr>
             | Some eh \<Rightarrow> eh \<lparr> strategy := s \<rparr>) \<rparr>"

section \<open>Verification: confidence calculator\<close>










section \<open>Verification: escalation in manual mode\<close>

text \<open>
  C9 (as amended). In manual mode the engine does not escalate iff the overall confidence is
  at least 0.9 and there is no issue. A critique with overall 0.95 and no issue is not
  escalated, and its recommended action is approve provided the configured auto-approve
  threshold is at most 0.95 (the default is 0.8); with one low-severity issue the same
  critique is escalated.
\<close>

theorem manual_mode_escalation:
  "mode cfg = Manual \<Longrightarrow>
   (\<not> shouldEscalate (shouldEscalateToHuman cfg c) \<longleftrightarrow>
       overall (confidence c) \<ge> 9 / 10 \<and> issues c = []) \<and>
   (overall (confidence c) = 95 / 100 \<and> issues c = [] \<longrightarrow>
       \<not> shouldEscalate (shouldEscalateToHuman cfg c) \<and>
       (autoApprove (thresholds cfg) \<le> 95 / 100 \<longrightarrow>
          rec_action (getRecommendedAction cfg c) = Approve)) \<and>
   (overall (confidence c) = 95 / 100 \<and> issues c = [i] \<and> severity i = Low \<longrightarrow>
       shouldEscalate (shouldEscalateToHuman cfg c))"
  by (simp add: shouldEscalateToHuman_def getRecommendedAction_def shouldAttemptAutoCorrect_def
      Let_def)

theorem manual_mode_escalation_witness:
  "mode manual_default_config = Manual \<and>
   autoApprove (thresholds manual_default_config) \<le> 95 / 100 \<and>
   overall (confidence (critique_of (95 / 100) [])) = 95 / 100 \<and>
   issues (critique_of (95 / 100) []) = [] \<and>
   \<not> shouldEscalate (shouldEscalateToHuman manual_default_config (critique_of (95 / 100) [])) \<and>
   rec_action (getRecommendedAction manual_default_config (critique_of (95 / 100) [])) = Approve \<and>
   shouldEscalate (shouldEscalateToHuman manual_default_config
     (critique_of (95 / 100) [\<lparr> severity = Low, issue_description = ''typo'', suggestion = None \<rparr>]))"
proof -
  have m: "mode manual_default_config = Manual" by (simp add: manual_default_config_def)
  have a: "autoApprove (thresholds manual_default_config) \<le> 95 / 100"
    by (simp add: manual_default_config_def)
  have o: "overall (confidence (critique_of (95 / 100) is)) = 95 / 100" for "is"
    by (simp add: critique_of_def)
  have e: "issues (critique_of (95 / 100) is) = is" for "is"
    by (simp add: critique_of_def)
  from manual_mode_escalation [OF m, of "critique_of (95 / 100) []"]
       manual_mode_escalation [OF m, of "critique_of (95 / 100)
          [\<lparr> severity = Low, issue_description = ''typo'', suggestion = None \<rparr>]"
          "\<lparr> severity = Low, issue_description = ''typo'', suggestion = None \<rparr>"]
       m a o e
  show ?thesis by simp
qed

text \<open>
  The claim as stated does not bound the auto-approve threshold. In manual mode with the
  threshold configured to 1, the critique with overall 0.95 and no issue is not escalated and
  the recommended action is review, not approve.
\<close>

theorem manual_mode_escalation_counterexample:
  "mode (manual_default_config \<lparr> thresholds :=
           \<lparr> autoApprove = 1, requireReview = 6 / 10, autoCorrect = 5 / 10 \<rparr> \<rparr>) = Manual \<and>
   \<not> shouldEscalate (shouldEscalateToHuman
        (manual_default_config \<lparr> thresholds :=
           \<lparr> autoApprove = 1, requireReview = 6 / 10, autoCorrect = 5 / 10 \<rparr> \<rparr>)
        (critique_of (95 / 100) [])) \<and>
   rec_action (getRecommendedAction
        (manual_default_config \<lparr> thresholds :=
           \<lparr> autoApprove = 1, requireReview = 6 / 10, autoCorrect = 5 / 10 \<rparr> \<rparr>)
        (critique_of (95 / 100) [])) = Review"
  by (simp add: manual_default_config_def critique_of_def shouldEscalateToHuman_def
      getRecommendedAction_def shouldAttemptAutoCorrect_def Let_def)

section \<open>Verification: the step-numbering check\<close>

lemma first_gap_none:
  "first_gap i xs = [] \<Longrightarrow> j < length xs \<Longrightarrow> xs ! j = int (i + j) + 1"
proof (induction xs arbitrary: i j)
  case Nil
  then show ?case by simp
next
  case (Cons x xs)
  from Cons.prems(1) have x: "x = int i + 1" and rest: "first_gap (Suc i) xs = []"
    by (auto split: if_splits)
  show ?case
  proof (cases j)
    case 0
    then show ?thesis using x by simp
  next
    case (Suc j')
    then have "j' < length xs" using Cons.prems(2) by simp
    from Cons.IH [OF rest this] show ?thesis using Suc by simp
  qed
qed

lemma first_gap_some:
  "first_gap i xs \<noteq> [] \<Longrightarrow>
   \<exists>j<length xs. (\<forall>k<j. xs ! k = int (i + k) + 1) \<and> xs ! j \<noteq> int (i + j) + 1 \<and>
      first_gap i xs = [gap_message (int (i + j) + 1) (xs ! j)]"
proof (induction xs arbitrary: i)
  case Nil
  then show ?case by simp
next
  case (Cons x xs)
  show ?case
  proof (cases "x = int i + 1")
    case False
    then have "0 < length (x # xs) \<and> (\<forall>k<0. (x # xs) ! k = int (i + k) + 1) \<and>
        (x # xs) ! 0 \<noteq> int (i + 0) + 1 \<and>
        first_gap i (x # xs) = [gap_message (int (i + 0) + 1) ((x # xs) ! 0)]"
      by simp
    then show ?thesis by blast
  next
    case True
    then have eq: "first_gap i (x # xs) = first_gap (Suc i) xs" by simp
    with Cons.prems have "first_gap (Suc i) xs \<noteq> []" by simp
    from Cons.IH [OF this] obtain j where j: "j < length xs"
      and before: "\<forall>k<j. xs ! k = int (Suc i + k) + 1"
      and at: "xs ! j \<noteq> int (Suc i + j) + 1"
      and msg: "first_gap (Suc i) xs = [gap_message (int (Suc i + j) + 1) (xs ! j)]"
      by blast
    have "\<forall>k<Suc j. (x # xs) ! k = int (i + k) + 1"
    proof (intro allI impI)
      fix k assume "k < Suc j"
      then show "(x # xs) ! k = int (i + k) + 1"
        using True before by (cases k) simp_all
    qed
    moreover have "(x # xs) ! Suc j \<noteq> int (i + Suc j) + 1" using at by simp
    moreover have "first_gap i (x # xs) = [gap_message (int (i + Suc j) + 1) ((x # xs) ! Suc j)]"
      using eq msg by simp
    moreover have "Suc j < length (x # xs)" using j by simp
    ultimately show ?thesis by blast
  qed
qed

lemma first_gap_contiguous:
  assumes "first_gap 0 xs = []"
  shows "xs = [1..int (length xs)]"
proof (rule nth_equalityI)
  show "length xs = length [1..int (length xs)]" by simp
next
  fix j assume "j < length xs"
  then show "xs ! j = [1..int (length xs)] ! j"
    using first_gap_none [OF assms, of j] by simp
qed

lemma show_nat_digits: "show_nat n \<noteq> [] \<and> hd (show_nat n) \<in> set ''0123456789''"
proof (induction n rule: show_nat.induct)
  case (1 n)
  show ?case
  proof (cases "n < 10")
    case True
    then have "n \<in> {0,1,2,3,4,5,6,7,8,9}" by auto
    then show ?thesis
      by (auto simp: show_nat.simps [of n] digit_char_def)
  next
    case False
    with 1 show ?thesis
      by (simp add: show_nat.simps [of n])
  qed
qed

lemma is_gap_error_gap_message [simp]: "is_gap_error (gap_message n m)"
  by (simp add: is_gap_error_def gap_message_def)

lemma step_field_errors_not_gap: "e \<in> set (step_field_errors index step) \<Longrightarrow> \<not> is_gap_error e"
proof -
  assume e: "e \<in> set (step_field_errors index step)"
  obtain c cs where s: "show_int (int index + 1) = c # cs" and c: "c \<in> set ''0123456789''"
    using show_nat_digits [of "nat (int index + 1)"]
    by (cases "show_nat (nat (int index + 1))") (auto simp: show_int_def)
  from e s c show ?thesis
    by (auto simp: step_field_errors_def is_gap_error_def split: if_splits)
qed

lemma filter_gap_field_errors:
  "filter is_gap_error (concat (map (\<lambda>(index, step). step_field_errors index step) xs)) = []"
  by (auto simp: filter_empty_conv dest: step_field_errors_not_gap)

lemma gap_errors_validate:
  "filter is_gap_error (errors (validate w)) = first_gap 0 (sort (map stepNumber (steps w)))"
proof -
  have "filter is_gap_error (first_gap i xs) = first_gap i xs" for i xs
    by (induction xs arbitrary: i) simp_all
  then show ?thesis
    by (simp add: validate_def Let_def filter_gap_field_errors is_gap_error_def)
qed

lemma sorted_distinct_gap_above:
  fixes ps :: "int list"
  assumes srt: "sorted ps" and dst: "distinct ps" and pos: "\<forall>p\<in>set ps. 1 \<le> p"
    and i: "i < length ps" and before: "\<forall>j<i. ps ! j = int j + 1" and at: "ps ! i \<noteq> int i + 1"
  shows "int i + 1 < ps ! i"
proof (cases i)
  case 0
  have "1 \<le> ps ! i" using pos i by simp
  with at 0 show ?thesis by simp
next
  case (Suc i')
  have prev: "ps ! i' = int i' + 1" using before Suc by simp
  have "ps ! i' \<le> ps ! i" using srt i Suc by (simp add: sorted_nth_mono)
  moreover have "ps ! i' \<noteq> ps ! i" using dst i Suc by (simp add: nth_eq_iff_index_eq)
  ultimately show ?thesis using prev at Suc by simp
qed

text \<open>
  C8 (as amended). For every workflow whose sorted step positions are not 1, 2, ..., n,
  validation reports exactly one gap message, "expected N, found M": N is the first
  one-based index at which the sorted positions deviate and M is the position found there.
  When the positions are distinct and all at least 1, N is the smallest absent position.
  Step numbering [1,2,4] is reported as "expected 3, found 4" and nothing else.
\<close>

theorem validate_first_gap_only:
  "(sort (map stepNumber (steps w)) \<noteq> [1..int (length (steps w))] \<longrightarrow>
     (\<exists>i<length (steps w).
        (\<forall>j<i. sort (map stepNumber (steps w)) ! j = int j + 1) \<and>
        sort (map stepNumber (steps w)) ! i \<noteq> int i + 1 \<and>
        filter is_gap_error (errors (validate w))
          = [gap_message (int i + 1) (sort (map stepNumber (steps w)) ! i)] \<and>
        (distinct (map stepNumber (steps w)) \<and> (\<forall>s\<in>set (steps w). 1 \<le> stepNumber s) \<longrightarrow>
           (\<forall>s\<in>set (steps w). stepNumber s \<noteq> int i + 1) \<and>
           (\<forall>k. 1 \<le> k \<and> k < int i + 1 \<longrightarrow> (\<exists>s\<in>set (steps w). stepNumber s = k))))) \<and>
   errors (validate (workflow_of_steps (map plain_step [1, 2, 4])))
     = [''Step numbering gap: expected 3, found 4'']"
proof (intro conjI impI)
  let ?ps = "sort (map stepNumber (steps w))"
  assume gap: "?ps \<noteq> [1..int (length (steps w))]"
  have len: "length ?ps = length (steps w)" by simp
  have "first_gap 0 ?ps \<noteq> []"
    using gap first_gap_contiguous [of ?ps] len by auto
  from first_gap_some [OF this] obtain i where i: "i < length ?ps"
    and before: "\<forall>k<i. ?ps ! k = int k + 1"
    and at: "?ps ! i \<noteq> int i + 1"
    and msg: "first_gap 0 ?ps = [gap_message (int i + 1) (?ps ! i)]"
    by auto
  have absent: "(\<forall>s\<in>set (steps w). stepNumber s \<noteq> int i + 1) \<and>
       (\<forall>k. 1 \<le> k \<and> k < int i + 1 \<longrightarrow> (\<exists>s\<in>set (steps w). stepNumber s = k))"
    if dst: "distinct (map stepNumber (steps w))" and pos: "\<forall>s\<in>set (steps w). 1 \<le> stepNumber s"
  proof -
    have srt: "sorted ?ps" by simp
    have dst': "distinct ?ps" using dst by simp
    have pos': "\<forall>p\<in>set ?ps. 1 \<le> p" using pos by auto
    have above: "int i + 1 < ?ps ! i"
      by (rule sorted_distinct_gap_above [OF srt dst' pos' i before at])
    have "int i + 1 \<notin> set ?ps"
    proof
      assume "int i + 1 \<in> set ?ps"
      then obtain m where m: "m < length ?ps" and pm: "?ps ! m = int i + 1"
        unfolding in_set_conv_nth by blast
      show False
      proof (cases "m < i")
        case True
        then show ?thesis using before pm by simp
      next
        case False
        then have "?ps ! i \<le> ?ps ! m" using srt m by (simp add: sorted_nth_mono)
        then show ?thesis using above pm by simp
      qed
    qed
    then have notin: "int i + 1 \<notin> stepNumber ` set (steps w)" by simp
    have a: "\<forall>s\<in>set (steps w). stepNumber s \<noteq> int i + 1"
    proof
      fix s assume "s \<in> set (steps w)"
      then have "stepNumber s \<in> stepNumber ` set (steps w)" by (rule imageI)
      with notin show "stepNumber s \<noteq> int i + 1" by metis
    qed
    have b: "\<exists>s\<in>set (steps w). stepNumber s = k" if k: "1 \<le> k \<and> k < int i + 1" for k
    proof -
      have lt: "nat (k - 1) < i" using k by auto
      then have "?ps ! nat (k - 1) = k" using before k by simp
      moreover have "?ps ! nat (k - 1) \<in> set ?ps" using lt i by (simp del: set_sort length_sort)
      ultimately have "k \<in> set ?ps" by simp
      then show ?thesis by auto
    qed
    from a b show ?thesis by blast
  qed
  have "filter is_gap_error (errors (validate w)) = [gap_message (int i + 1) (?ps ! i)]"
    by (simp only: gap_errors_validate msg)
  with i len before at absent
  show "\<exists>i<length (steps w).
        (\<forall>j<i. ?ps ! j = int j + 1) \<and> ?ps ! i \<noteq> int i + 1 \<and>
        filter is_gap_error (errors (validate w)) = [gap_message (int i + 1) (?ps ! i)] \<and>
        (distinct (map stepNumber (steps w)) \<and> (\<forall>s\<in>set (steps w). 1 \<le> stepNumber s) \<longrightarrow>
           (\<forall>s\<in>set (steps w). stepNumber s \<noteq> int i + 1) \<and>
           (\<forall>k. 1 \<le> k \<and> k < int i + 1 \<longrightarrow> (\<exists>s\<in>set (steps w). stepNumber s = k)))"
    by (intro exI [of _ i]) simp
next
  show "errors (validate (workflow_of_steps (map plain_step [1, 2, 4])))
     = [''Step numbering gap: expected 3, found 4'']"
    by (simp add: validate_def workflow_of_steps_def plain_step_def step_field_errors_def
        gap_message_def show_int_def show_nat.simps digit_char_def Let_def)
qed

theorem validate_first_gap_only_witness:
  "sort (map stepNumber (steps (workflow_of_steps (map plain_step [1, 3, 5])))) \<noteq> [1..3] \<and>
   distinct (map stepNumber (steps (workflow_of_steps (map plain_step [1, 3, 5])))) \<and>
   list_all (\<lambda>s. 1 \<le> stepNumber s) (steps (workflow_of_steps (map plain_step [1, 3, 5]))) \<and>
   filter is_gap_error (errors (validate (workflow_of_steps (map plain_step [1, 3, 5]))))
     = [gap_message 2 3]"
proof -
  let ?w = "workflow_of_steps (map plain_step [1, 3, 5])"
  have ps: "sort (map stepNumber (steps ?w)) = [1, 3, 5]"
    by (simp add: workflow_of_steps_def plain_step_def)
  have len: "length (steps ?w) = 3"
    by (simp add: workflow_of_steps_def)
  have up: "[1..3] = [1, 2, 3 :: int]"
    by (simp add: upto_rec1)
  have h: "sort (map stepNumber (steps ?w)) \<noteq> [1..int (length (steps ?w))]"
    unfolding ps len using up by simp
  from validate_first_gap_only [of ?w] h
  obtain i where i: "i < length (steps ?w)"
    and before: "\<forall>j<i. sort (map stepNumber (steps ?w)) ! j = int j + 1"
    and at: "sort (map stepNumber (steps ?w)) ! i \<noteq> int i + 1"
    and msg: "filter is_gap_error (errors (validate ?w))
        = [gap_message (int i + 1) (sort (map stepNumber (steps ?w)) ! i)]"
    by blast
  note before' = before [unfolded ps] and at' = at [unfolded ps] and msg' = msg [unfolded ps]
  have "i \<noteq> 0"
  proof
    assume "i = 0"
    with at' show False by simp
  qed
  moreover have "i \<noteq> 2"
  proof
    assume "i = 2"
    then have "1 < i" by simp
    with before' have "[1, 3, 5 :: int] ! 1 = int 1 + 1" by blast
    then show False by simp
  qed
  moreover from i len have "i = 0 \<or> i = 1 \<or> i = 2" by auto
  ultimately have "i = 1" by blast
  with msg' have "filter is_gap_error (errors (validate ?w)) = [gap_message 2 3]"
    by simp
  moreover have "distinct (map stepNumber (steps ?w))"
    by (simp add: workflow_of_steps_def plain_step_def)
  moreover have "list_all (\<lambda>s. 1 \<le> stepNumber s) (steps ?w)"
    by (simp add: workflow_of_steps_def plain_step_def)
  ultimately show ?thesis using h len up by simp
qed

text \<open>
  The claim as stated makes N the smallest absent position. For positions [0,1,3] the only
  message is "expected 1, found 0", although position 1 is present and 2 is the absent one.
\<close>

theorem validate_first_gap_only_counterexample:
  "errors (validate (workflow_of_steps (map plain_step [0, 1, 3])))
     = [''Step numbering gap: expected 1, found 0''] \<and>
   (1::int) \<in> set (map stepNumber (steps (workflow_of_steps (map plain_step [0, 1, 3])))) \<and>
   (2::int) \<notin> set (map stepNumber (steps (workflow_of_steps (map plain_step [0, 1, 3]))))"
  by (simp add: validate_def workflow_of_steps_def plain_step_def step_field_errors_def
        gap_message_def show_int_def show_nat.simps digit_char_def Let_def)

section \<open>Verification: the step interpreter\<close>

lemma step_selector_errorHandling [simp]:
  "step_selector (step \<lparr> errorHandling := e \<rparr>) = step_selector step"
  by (simp add: step_selector_def)

lemma step_field_errorHandling [simp]:
  "step_field (step \<lparr> errorHandling := e \<rparr>) = step_field step"
  by (simp add: step_field_def)

lemma validateStep_errorHandling [simp]:
  "validateStep S (step \<lparr> errorHandling := e \<rparr>) ex = validateStep S step ex"
  by (simp add: validateStep_def cong: option.case_cong ValidationType.case_cong if_cong)

lemma input_value_errorHandling [simp]:
  "input_value S (step \<lparr> errorHandling := e \<rparr>) ex = input_value S step ex"
  by (simp add: input_value_def cong: option.case_cong if_cong)

lemma executeStep_errorHandling:
  "executeStep S (step \<lparr> errorHandling := e \<rparr>) ex = executeStep S step ex"
  by (cases "action step")
     (simp_all add: executeStep_def executeNavigate_def executeClick_def executeInput_def
        executeSelect_def executeWait_def executeVerify_def executeScreenshot_def executeExtract_def
        cong: option.case_cong if_cong)

lemma validateStep_failure:
  "validateStep S step ex = (r, ex') \<Longrightarrow> \<not> success r \<Longrightarrow>
   step_error r \<noteq> None \<and> step_output r = None \<and> step_screenshot r = None \<and>
   executionState ex' = executionState ex \<and> currentPage ex' = currentPage ex"
  by (auto simp: validateStep_def step_failure_def step_success_def await_def Let_def
      split: option.splits if_splits prod.splits sum.splits ValidationType.splits)

lemma executeNavigate_failure: "failed_cleanly ex (executeNavigate S step ex)"
  by (auto simp: failed_cleanly_def executeNavigate_def step_failure_def step_success_def await_def
      dest: validateStep_failure
      split: option.splits if_splits prod.splits sum.splits)

lemma executeClick_failure: "failed_cleanly ex (executeClick S step ex)"
  by (auto simp: failed_cleanly_def executeClick_def step_failure_def step_success_def await_def
      split: option.splits if_splits prod.splits sum.splits)

lemma input_value_state: "input_value S step ex = (v, ex') \<Longrightarrow> executionState ex' = executionState ex"
  by (auto simp: input_value_def Let_def split: option.splits if_splits prod.splits)

lemma executeInput_failure: "failed_cleanly ex (executeInput S step ex)"
  by (auto simp: failed_cleanly_def executeInput_def step_failure_def step_success_def await_def
      Let_def dest: input_value_state
      split: option.splits if_splits prod.splits sum.splits)

lemma executeSelect_failure: "failed_cleanly ex (executeSelect S step ex)"
  by (auto simp: failed_cleanly_def executeSelect_def step_failure_def step_success_def await_def
      Let_def split: option.splits if_splits prod.splits sum.splits)

lemma executeWait_failure: "failed_cleanly ex (executeWait S step ex)"
  by (auto simp: failed_cleanly_def executeWait_def step_failure_def step_success_def await_def
      Let_def split: option.splits if_splits prod.splits sum.splits)

lemma executeVerify_failure: "failed_cleanly ex (executeVerify S step ex)"
  by (auto simp: failed_cleanly_def executeVerify_def dest: validateStep_failure
      split: option.splits if_splits prod.splits sum.splits)

lemma executeScreenshot_failure: "failed_cleanly ex (executeScreenshot S step ex)"
  by (auto simp: failed_cleanly_def executeScreenshot_def await_def
      split: option.splits if_splits prod.splits sum.splits)

lemma executeExtract_failure: "failed_cleanly ex (executeExtract S step ex)"
  by (auto simp: failed_cleanly_def executeExtract_def step_failure_def step_success_def await_def
      Let_def split: option.splits if_splits prod.splits sum.splits)

lemma executeStep_failure:
  assumes "executeStep S step ex = (r, ex')" and "\<not> success r"
  shows "step_error r \<noteq> None \<and> step_output r = None \<and> step_screenshot r = None \<and>
         executionState ex' = executionState ex"
proof (cases "currentPage ex")
  case False
  with assms show ?thesis by (auto simp: executeStep_def step_failure_def)
next
  case True
  define p where "p =
     (case action step of
        Navigate \<Rightarrow> executeNavigate S step ex
      | Click \<Rightarrow> executeClick S step ex
      | Input \<Rightarrow> executeInput S step ex
      | Select \<Rightarrow> executeSelect S step ex
      | Wait \<Rightarrow> executeWait S step ex
      | Verify \<Rightarrow> executeVerify S step ex
      | Screenshot \<Rightarrow> executeScreenshot S step ex
      | Extract \<Rightarrow> executeExtract S step ex
      | Conditional \<Rightarrow> (Inr (step_failure (''Unknown action: '' @ action_name (action step))), ex)
      | Loop \<Rightarrow> (Inr (step_failure (''Unknown action: '' @ action_name (action step))), ex))"
  have clean: "failed_cleanly ex p"
    unfolding p_def
    by (cases "action step")
       (simp_all add: executeNavigate_failure executeClick_failure executeInput_failure
          executeSelect_failure executeWait_failure executeVerify_failure
          executeScreenshot_failure executeExtract_failure,
        simp_all add: failed_cleanly_def step_failure_def)
  have run: "executeStep S step ex =
      (case p of (Inl msg, ex') \<Rightarrow> (step_failure msg, ex') | (Inr r, ex') \<Rightarrow> (r, ex'))"
    using True by (simp add: executeStep_def p_def)
  show ?thesis
    using assms clean unfolding run
    by (auto simp: failed_cleanly_def step_failure_def split: prod.splits sum.splits)
qed

section \<open>Verification: the retry loop\<close>

lemma attempt_Suc:
  "attempt S step (Suc j) ex = attempt S step j (snd (executeStep S step ex))"
  by (simp add: attempt_def)

lemma attempt_0: "attempt S step 0 ex = fst (executeStep S step ex)"
  by (simp add: attempt_def)

lemma retryStep_first_success:
  "int k < maxR - c \<Longrightarrow> \<forall>j<k. \<not> success (attempt S step j ex) \<Longrightarrow>
   success (attempt S step k ex) \<Longrightarrow>
   retryStep S step maxR c ex = (Some (attempt S step k ex), after_attempts S step (Suc k) ex)"
proof (induction k arbitrary: c ex)
  case 0
  then have "c < maxR" by simp
  with 0 show ?case
    by (cases "executeStep S step ex") (simp add: retryStep.simps [of S step maxR c ex] attempt_0)
next
  case (Suc k)
  obtain r ex1 where run: "executeStep S step ex = (r, ex1)" by (cases "executeStep S step ex")
  have c: "c < maxR" using Suc.prems(1) by simp
  have "\<not> success (attempt S step 0 ex)" using Suc.prems(2) by blast
  then have fail: "\<not> success r" using run by (simp add: attempt_0)
  have lt: "int k < maxR - (c + 1)" using Suc.prems(1) by simp
  have before: "\<forall>j<k. \<not> success (attempt S step j ex1)"
  proof (intro allI impI)
    fix j assume "j < k"
    then have "\<not> success (attempt S step (Suc j) ex)" using Suc.prems(2) by simp
    then show "\<not> success (attempt S step j ex1)" using run by (simp add: attempt_Suc)
  qed
  have at: "success (attempt S step k ex1)"
    using Suc.prems(3) run by (simp add: attempt_Suc)
  from Suc.IH [OF lt before at] c fail run show ?case
    by (simp add: retryStep.simps [of S step maxR c ex] attempt_Suc)
qed



lemma update_last_snoc: "update_last f (xs @ [x]) = xs @ [f x]"
  by (simp add: update_last_def list_update_append)

section \<open>Verification: the step loop\<close>

lemma runSteps_succeeded:
  "executeStep S step ex = (r, ex1) \<Longrightarrow> success r \<Longrightarrow>
   runSteps S (step # rest) outcomes ex
     = runSteps S rest (outcomes @ [record_outcome step r]) (advance step ex1)"
  by simp

lemma runSteps_abort:
  "executeStep S step ex = (r, ex1) \<Longrightarrow> \<not> success r \<Longrightarrow> step_strategy step = Some Abort \<Longrightarrow>
   runSteps S (step # rest) outcomes ex = (outcomes @ [record_outcome step r], ex1)"
  by simp

lemma runSteps_skip:
  "executeStep S step ex = (r, ex1) \<Longrightarrow> \<not> success r \<Longrightarrow> step_strategy step = Some Skip \<Longrightarrow>
   runSteps S (step # rest) outcomes ex
     = runSteps S rest (outcomes @ [(record_outcome step r) \<lparr> status := StepSkipped \<rparr>]) ex1"
  by (simp add: update_last_snoc)

lemma runSteps_unhandled:
  "executeStep S step ex = (r, ex1) \<Longrightarrow> \<not> success r \<Longrightarrow>
   step_strategy step = Some Fallback \<or> step_strategy step = None \<Longrightarrow>
   runSteps S (step # rest) outcomes ex
     = runSteps S rest (outcomes @ [record_outcome step r]) (advance step ex1)"
  by auto

lemma runSteps_retry_succeeded:
  "executeStep S step ex = (r, ex1) \<Longrightarrow> \<not> success r \<Longrightarrow> step_strategy step = Some Retry \<Longrightarrow>
   retryStep S step (step_maxRetries step) 0 ex1 = (Some r', ex2) \<Longrightarrow>
   runSteps S (step # rest) outcomes ex
     = runSteps S rest
         (outcomes @ [(record_outcome step r) \<lparr> status := StepSuccess, outcome_output := step_output r' \<rparr>])
         (advance step ex2)"
  by (simp add: update_last_snoc)


lemma runSteps_extends:
  "\<exists>more. fst (runSteps S ss outcomes ex) = outcomes @ more"
proof (induction ss arbitrary: outcomes ex)
  case Nil
  then show ?case by simp
next
  case (Cons step rest)
  obtain r ex1 where run: "executeStep S step ex = (r, ex1)" by (cases "executeStep S step ex")
  have ext: "\<exists>more. fst (runSteps S rest (outcomes @ [x]) e) = outcomes @ more" for x e
    using Cons.IH [of "outcomes @ [x]" e] by auto
  show ?case
  proof (cases "success r")
    case True
    then show ?thesis using run ext by simp
  next
    case False
    show ?thesis
    proof (cases "step_strategy step")
      case None
      then show ?thesis using run False ext by simp
    next
      case (Some s)
      show ?thesis
      proof (cases s)
        case Retry
        obtain rr ex2 where retry: "retryStep S step (step_maxRetries step) 0 ex1 = (rr, ex2)"
          by (cases "retryStep S step (step_maxRetries step) 0 ex1")
        show ?thesis
          using run False Some Retry retry ext
          by (cases rr) (simp_all add: update_last_snoc)
      next
        case Skip
        then show ?thesis using run False Some ext by (simp add: update_last_snoc)
      next
        case Abort
        then show ?thesis using run False Some by simp
      next
        case Fallback
        then show ?thesis using run False Some ext by simp
      qed
    qed
  qed
qed

section \<open>Verification: error-handling policies\<close>

lemma with_strategy_facts:
  "step_strategy (with_strategy s step) = Some s"
  "executeStep S (with_strategy s step) ex = executeStep S step ex"
  "record_outcome (with_strategy s step) r = record_outcome step r"
  by (simp_all add: with_strategy_def step_strategy_def executeStep_errorHandling record_outcome_def
      split: option.splits)

lemma flaky_click:
  "executeStep (flaky_session n) (click_step i s) \<lparr> executionState = st, currentPage = True, world = w \<rparr>
     = ((if w < n then step_failure ''element is detached''
         else step_success (Some (JObj [(''selector'', JStr ''#submit'')]))),
        \<lparr> executionState = st, currentPage = True, world = Suc w \<rparr>)"
  by (simp add: executeStep_def executeClick_def click_step_def flaky_session_def await_def
      step_selector_def truthy_def)

lemma click_step_facts:
  "step_strategy (click_step i s) = s"
  "step_maxRetries (click_step i (Some s')) = 2"
  "stepNumber (click_step i s) = i"
  by (simp_all add: click_step_def step_strategy_def step_maxRetries_def split: option.splits)

lemma live_eq: "live = \<lparr> executionState = createInitialState, currentPage = True, world = 0 \<rparr>"
  by (simp add: live_def new_executor_def)

lemma flaky_attempts:
  "after_attempts (flaky_session n) (click_step i s) k \<lparr> executionState = st, currentPage = True, world = w \<rparr>
     = \<lparr> executionState = st, currentPage = True, world = w + k \<rparr>"
  by (induction k arbitrary: w) (simp_all add: flaky_click)

lemma flaky_attempt:
  "attempt (flaky_session n) (click_step i s) k \<lparr> executionState = st, currentPage = True, world = w \<rparr>
     = (if w + k < n then step_failure ''element is detached''
        else step_success (Some (JObj [(''selector'', JStr ''#submit'')])))"
  by (simp add: attempt_def flaky_attempts flaky_click)

lemma launch_flaky:
  "launch (flaky_session n) (new_executor 0) = (Inr (), live)"
  by (simp add: launch_def await_def flaky_session_def new_executor_def live_def)

lemma executeWorkflow_launched:
  "launch S ex = (Inr u, ex1) \<Longrightarrow>
   fst (executeWorkflow S flow ui ex) =
     completed_result flow (fst (runSteps S (steps flow) [] (seed_state flow ui ex1)))
       (executionState (snd (runSteps S (steps flow) [] (seed_state flow ui ex1))))"
  by (simp add: executeWorkflow_def case_prod_beta)

lemma executeWorkflow_launch_failed:
  "launch S ex = (Inl msg, ex1) \<Longrightarrow>
   fst (executeWorkflow S flow ui ex) = exception_result flow [] msg (executionState ex1)"
  by (simp add: executeWorkflow_def)

lemma stepResults_completed [simp]: "stepResults (completed_result flow outcomes st) = outcomes"
  by (simp add: completed_result_def Let_def)

lemma seed_live:
  "seed_state flow None live =
     \<lparr> executionState = createInitialState \<lparr> state_workflowId := workflow_id flow \<rparr>,
       currentPage = True, world = 0 \<rparr>"
  by (simp add: seed_state_def live_eq)

lemma runSteps_flaky_two:
  "map status (fst (runSteps (flaky_session (Suc 0)) [click_step 1 s, click_step 2 None] []
       \<lparr> executionState = st, currentPage = True, world = 0 \<rparr>))
     = (case s of Some Abort \<Rightarrow> [StepFailure]
        | Some Skip \<Rightarrow> [StepSkipped, StepSuccess]
        | Some Retry \<Rightarrow> [StepSuccess, StepSuccess]
        | _ \<Rightarrow> [StepFailure, StepSuccess])"
  by (simp add: flaky_click click_step_facts step_failure_def step_success_def record_outcome_def
      advance_def update_last_def retryStep.simps
      split: option.splits Strategy.splits)



text \<open>
  C4 (as amended). When a step with the fallback strategy fails, the loop records the
  failure and goes on with the next step, exactly as for a step with no error-handling
  policy; no jump to the fallback position is made. Under the abort strategy the same
  failure would end the loop with that failure as the last outcome.
\<close>

theorem fallback_policy:
  assumes "step_strategy step = Some Fallback"
    and "executeStep S step ex = (first, ex1)"
    and "\<not> success first"
  shows
    "runSteps S (step # rest) outcomes ex
       = runSteps S rest (outcomes @ [record_outcome step first]) (advance step ex1) \<and>
     runSteps S (step # rest) outcomes ex
       = runSteps S (step \<lparr> errorHandling := None \<rparr> # rest) outcomes ex \<and>
     fst (runSteps S (with_strategy Abort step # rest) outcomes ex)
       = outcomes @ [record_outcome step first]"
proof (intro conjI)
  show go: "runSteps S (step # rest) outcomes ex
       = runSteps S rest (outcomes @ [record_outcome step first]) (advance step ex1)"
    using runSteps_unhandled [OF assms(2) assms(3)] assms(1) by simp
  have none: "step_strategy (step \<lparr> errorHandling := None \<rparr>) = None"
    by (simp add: step_strategy_def)
  have run: "executeStep S (step \<lparr> errorHandling := None \<rparr>) ex = (first, ex1)"
    using assms(2) by (simp add: executeStep_errorHandling)
  have "runSteps S (step \<lparr> errorHandling := None \<rparr> # rest) outcomes ex
       = runSteps S rest (outcomes @ [record_outcome (step \<lparr> errorHandling := None \<rparr>) first])
           (advance (step \<lparr> errorHandling := None \<rparr>) ex1)"
    using runSteps_unhandled [OF run assms(3)] none by simp
  then show "runSteps S (step # rest) outcomes ex
       = runSteps S (step \<lparr> errorHandling := None \<rparr> # rest) outcomes ex"
    using go by (simp add: record_outcome_def advance_def)
  show "fst (runSteps S (with_strategy Abort step # rest) outcomes ex)
       = outcomes @ [record_outcome step first]"
    using runSteps_abort [of S "with_strategy Abort step" ex first ex1 rest outcomes] assms(2,3)
    by (simp add: with_strategy_facts)
qed

theorem fallback_policy_witness:
  "step_strategy (click_step 1 (Some Fallback)) = Some Fallback \<and>
   \<not> success (fst (executeStep (flaky_session (Suc 0)) (click_step 1 (Some Fallback)) live)) \<and>
   map status (fst (runSteps (flaky_session (Suc 0))
       [click_step 1 (Some Fallback), click_step 2 None] [] live)) = [StepFailure, StepSuccess]"
proof -
  let ?s = "click_step 1 (Some Fallback)"
  let ?ex1 = "\<lparr> executionState = createInitialState, currentPage = True, world = Suc 0 \<rparr>"
  have strat: "step_strategy ?s = Some Fallback" by (simp add: click_step_facts)
  have f: "executeStep (flaky_session (Suc 0)) ?s live = (step_failure ''element is detached'', ?ex1)"
    by (simp add: live_eq flaky_click)
  have nf: "\<not> success (step_failure ''element is detached'')" by (simp add: step_failure_def)
  from fallback_policy [OF strat f nf, of "[click_step 2 None]" "[]"]
  have "runSteps (flaky_session (Suc 0)) [?s, click_step 2 None] [] live
      = runSteps (flaky_session (Suc 0)) [click_step 2 None]
          ([] @ [record_outcome ?s (step_failure ''element is detached'')]) (advance ?s ?ex1)"
    by blast
  then have "map status (fst (runSteps (flaky_session (Suc 0)) [?s, click_step 2 None] [] live))
      = [StepFailure, StepSuccess]"
    by (simp add: advance_def flaky_click step_success_def step_failure_def record_outcome_def)
  then show ?thesis using strat by (simp add: f nf)
qed

text \<open>
  The claim as stated makes fallback behave as abort. With a first click that throws, the
  workflow whose first step has the fallback strategy runs its second step as well, while
  the same workflow with the abort strategy stops after the first.
\<close>

theorem fallback_policy_counterexample:
  "map status (stepResults (fst (executeWorkflow (flaky_session (Suc 0))
      (workflow_of_steps [click_step 1 (Some Fallback), click_step 2 None]) None (new_executor 0))))
     = [StepFailure, StepSuccess] \<and>
   map status (stepResults (fst (executeWorkflow (flaky_session (Suc 0))
      (workflow_of_steps [click_step 1 (Some Abort), click_step 2 None]) None (new_executor 0))))
     = [StepFailure]"
  by (simp add: executeWorkflow_launched [OF launch_flaky] seed_live workflow_of_steps_def
      runSteps_flaky_two del: runSteps.simps)

section \<open>Verification: the overall status\<close>

lemma run_status_completed:
  "run_status (completed_result flow outcomes st) =
     (if list_all (\<lambda>r. status r = StepSuccess) outcomes then RunSuccess
      else if list_ex (\<lambda>r. status r = StepFailure) outcomes then RunFailure else RunPartial)"
  by (simp add: completed_result_def Let_def)

lemma launch_broken:
  "launch broken_session (new_executor 0) = (Inl ''browser launch failed'', new_executor 0)"
  by (simp add: launch_def await_def broken_session_def flaky_session_def new_executor_def)

text \<open>
  C1 (as amended). When the browser launch at the start of a run does not throw, the
  overall status of the result is success iff every recorded outcome is a success, failure
  iff at least one recorded outcome is a failure, and partial otherwise. When the launch
  throws, the exception is caught and the status is failure with no outcome recorded.
\<close>

theorem overall_status:
  "(launch S ex = (Inr (), ex1) \<longrightarrow>
      (run_status (fst (executeWorkflow S flow ui ex)) = RunSuccess \<longleftrightarrow>
         (\<forall>r\<in>set (stepResults (fst (executeWorkflow S flow ui ex))). status r = StepSuccess)) \<and>
      (run_status (fst (executeWorkflow S flow ui ex)) = RunFailure \<longleftrightarrow>
         (\<exists>r\<in>set (stepResults (fst (executeWorkflow S flow ui ex))). status r = StepFailure)) \<and>
      (run_status (fst (executeWorkflow S flow ui ex)) = RunPartial \<longleftrightarrow>
         \<not> (\<forall>r\<in>set (stepResults (fst (executeWorkflow S flow ui ex))). status r = StepSuccess) \<and>
         \<not> (\<exists>r\<in>set (stepResults (fst (executeWorkflow S flow ui ex))). status r = StepFailure)) \<and>
      run_status (fst (executeWorkflow S flow ui ex)) \<noteq> RunSkipped) \<and>
   (launch S ex = (Inl msg, ex1) \<longrightarrow>
      run_status (fst (executeWorkflow S flow ui ex)) = RunFailure \<and>
      stepResults (fst (executeWorkflow S flow ui ex)) = [])"
proof (intro conjI impI)
  assume l: "launch S ex = (Inl msg, ex1)"
  show "run_status (fst (executeWorkflow S flow ui ex)) = RunFailure"
    by (simp add: executeWorkflow_launch_failed [OF l] exception_result_def)
  show "stepResults (fst (executeWorkflow S flow ui ex)) = []"
    by (simp add: executeWorkflow_launch_failed [OF l] exception_result_def)
next
  assume l: "launch S ex = (Inr (), ex1)"
  define outs where "outs = fst (runSteps S (steps flow) [] (seed_state flow ui ex1))"
  have res: "stepResults (fst (executeWorkflow S flow ui ex)) = outs"
    by (simp add: executeWorkflow_launched [OF l] outs_def)
  have st: "run_status (fst (executeWorkflow S flow ui ex)) =
     (if list_all (\<lambda>r. status r = StepSuccess) outs then RunSuccess
      else if list_ex (\<lambda>r. status r = StepFailure) outs then RunFailure else RunPartial)"
    by (simp add: executeWorkflow_launched [OF l] outs_def run_status_completed)
  have excl: "\<not> (list_all (\<lambda>r. status r = StepSuccess) outs \<and> list_ex (\<lambda>r. status r = StepFailure) outs)"
    by (auto simp: list_all_iff list_ex_iff)
  show "run_status (fst (executeWorkflow S flow ui ex)) = RunSuccess \<longleftrightarrow>
         (\<forall>r\<in>set (stepResults (fst (executeWorkflow S flow ui ex))). status r = StepSuccess)"
    unfolding res st by (simp add: list_all_iff)
  show "run_status (fst (executeWorkflow S flow ui ex)) = RunFailure \<longleftrightarrow>
         (\<exists>r\<in>set (stepResults (fst (executeWorkflow S flow ui ex))). status r = StepFailure)"
    unfolding res st using excl by (auto simp: list_all_iff list_ex_iff)
  show "run_status (fst (executeWorkflow S flow ui ex)) = RunPartial \<longleftrightarrow>
         \<not> (\<forall>r\<in>set (stepResults (fst (executeWorkflow S flow ui ex))). status r = StepSuccess) \<and>
         \<not> (\<exists>r\<in>set (stepResults (fst (executeWorkflow S flow ui ex))). status r = StepFailure)"
    unfolding res st by (auto simp: list_all_iff list_ex_iff)
  show "run_status (fst (executeWorkflow S flow ui ex)) \<noteq> RunSkipped"
    unfolding st by simp
qed

theorem overall_status_witness:
  "launch (flaky_session (Suc 0)) (new_executor 0) = (Inr (), live) \<and>
   map status (stepResults (fst (executeWorkflow (flaky_session (Suc 0))
      (workflow_of_steps [click_step 1 (Some Skip), click_step 2 None]) None (new_executor 0))))
     = [StepSkipped, StepSuccess] \<and>
   run_status (fst (executeWorkflow (flaky_session (Suc 0))
      (workflow_of_steps [click_step 1 (Some Skip), click_step 2 None]) None (new_executor 0)))
     = RunPartial \<and>
   launch broken_session (new_executor 0) = (Inl ''browser launch failed'', new_executor 0) \<and>
   run_status (fst (executeWorkflow broken_session
      (workflow_of_steps [click_step 1 (Some Skip), click_step 2 None]) None (new_executor 0)))
     = RunFailure"
proof -
  let ?flow = "workflow_of_steps [click_step 1 (Some Skip), click_step 2 None]"
  let ?R = "fst (executeWorkflow (flaky_session (Suc 0)) ?flow None (new_executor 0))"
  have outs: "map status (stepResults ?R) = [StepSkipped, StepSuccess]"
    by (simp add: executeWorkflow_launched [OF launch_flaky] seed_live workflow_of_steps_def
        runSteps_flaky_two del: runSteps.simps)
  then have "set (map status (stepResults ?R)) = {StepSkipped, StepSuccess}" by simp
  then have in_set: "status ` set (stepResults ?R) = {StepSkipped, StepSuccess}" by simp
  have no_all: "\<not> (\<forall>r\<in>set (stepResults ?R). status r = StepSuccess)"
  proof
    assume "\<forall>r\<in>set (stepResults ?R). status r = StepSuccess"
    then have "status ` set (stepResults ?R) \<subseteq> {StepSuccess}" by blast
    with in_set show False by simp
  qed
  have no_fail: "\<not> (\<exists>r\<in>set (stepResults ?R). status r = StepFailure)"
  proof
    assume "\<exists>r\<in>set (stepResults ?R). status r = StepFailure"
    then have "StepFailure \<in> status ` set (stepResults ?R)" by force
    with in_set show False by simp
  qed
  from overall_status [of "flaky_session (Suc 0)" "new_executor 0" live ?flow None] launch_flaky
    no_all no_fail
  have partial: "run_status ?R = RunPartial" by blast
  from overall_status [of broken_session "new_executor 0" "new_executor 0" ?flow None
      "''browser launch failed''"] launch_broken
  have failed: "run_status (fst (executeWorkflow broken_session ?flow None (new_executor 0))) = RunFailure"
    by blast
  show ?thesis using outs partial failed launch_flaky launch_broken by blast
qed

text \<open>
  The claim as stated covers every executed workflow. When the browser cannot be launched,
  the result has status failure and an empty list of outcomes: no outcome is a failure, and
  every recorded outcome (there is none) is a success.
\<close>

theorem overall_status_counterexample:
  "run_status (fst (executeWorkflow broken_session (workflow_of_steps [click_step 1 None]) None
      (new_executor 0))) = RunFailure \<and>
   stepResults (fst (executeWorkflow broken_session (workflow_of_steps [click_step 1 None]) None
      (new_executor 0))) = [] \<and>
   list_all (\<lambda>r. status r = StepSuccess)
     (stepResults (fst (executeWorkflow broken_session (workflow_of_steps [click_step 1 None]) None
        (new_executor 0)))) \<and>
   \<not> list_ex (\<lambda>r. status r = StepFailure)
     (stepResults (fst (executeWorkflow broken_session (workflow_of_steps [click_step 1 None]) None
        (new_executor 0))))"
  by (simp add: executeWorkflow_launch_failed [OF launch_broken] exception_result_def)

section \<open>Verification: run-level faults\<close>

lemma executeBatch_length: "length (fst (executeBatch St S flows m w)) = length flows"
proof (induction flows arbitrary: w)
  case Nil
  then show ?case by simp
next
  case (Cons flow rest)
  obtain r w1 where ex: "execute St S flow (m (workflow_id flow)) w = (r, w1)"
    by (cases "execute St S flow (m (workflow_id flow)) w")
  show ?case using Cons.IH [of w1] ex
    by (cases r) (simp_all add: case_prod_beta)
qed

lemma execute_full_storage:
  "fst (execute full_storage S flow ui w) = Inl ''no space left on device''"
  by (simp add: execute_def saveExecutionResults_def and_then_def full_storage_def
      steady_storage_def case_prod_beta)

text \<open>
  C5 (as amended). \<open>executeWorkflow\<close> always returns a result. When the launch at its start
  throws, the exception is caught and the result has status failure, no outcome, the
  message as its log, one critical issue, and a confidence of 0.1 overall with completeness,
  accuracy and coverage 0 and feasibility 0.5, flagged for human review. \<open>executeBatch\<close>
  returns one result per workflow; for a workflow whose \<open>execute\<close> throws it is a result with
  status failure, one critical issue and a confidence that is zero in every component.
\<close>

theorem run_level_fault:
  "(launch S ex = (Inl msg, ex1) \<longrightarrow>
      run_status (fst (executeWorkflow S flow ui ex)) = RunFailure \<and>
      stepResults (fst (executeWorkflow S flow ui ex)) = [] \<and>
      logs (fst (executeWorkflow S flow ui ex)) = [msg] \<and>
      issues (run_critique (fst (executeWorkflow S flow ui ex)))
        = [\<lparr> severity = Critical, issue_description = ''Workflow failed: '' @ msg,
             suggestion = None \<rparr>] \<and>
      confidence (run_critique (fst (executeWorkflow S flow ui ex)))
        = \<lparr> overall = 1 / 10,
            dimensions = \<lparr> completeness = 0, accuracy = 0, feasibility = 1 / 2, coverage = 0 \<rparr>,
            reasoning = ''Workflow execution failed with exception'',
            humanReviewRequired = True \<rparr>) \<and>
   (execute St S flow (m (workflow_id flow)) w = (Inl msg, w1) \<longrightarrow>
      (\<exists>B. fst (executeBatch St S (flow # rest) m w) = B # fst (executeBatch St S rest m w1) \<and>
           run_status B = RunFailure \<and> stepResults B = [] \<and> logs B = [msg] \<and>
           issues (run_critique B)
             = [\<lparr> severity = Critical, issue_description = msg, suggestion = None \<rparr>] \<and>
           confidence (run_critique B)
             = \<lparr> overall = 0,
                 dimensions = \<lparr> completeness = 0, accuracy = 0, feasibility = 0, coverage = 0 \<rparr>,
                 reasoning = ''Execution failed with exception'',
                 humanReviewRequired = True \<rparr>)) \<and>
   length (fst (executeBatch St S flows m w)) = length flows"
proof (intro conjI impI)
  assume l: "launch S ex = (Inl msg, ex1)"
  show "run_status (fst (executeWorkflow S flow ui ex)) = RunFailure"
    and "stepResults (fst (executeWorkflow S flow ui ex)) = []"
    and "logs (fst (executeWorkflow S flow ui ex)) = [msg]"
    and "issues (run_critique (fst (executeWorkflow S flow ui ex)))
        = [\<lparr> severity = Critical, issue_description = ''Workflow failed: '' @ msg,
             suggestion = None \<rparr>]"
    and "confidence (run_critique (fst (executeWorkflow S flow ui ex)))
        = \<lparr> overall = 1 / 10,
            dimensions = \<lparr> completeness = 0, accuracy = 0, feasibility = 1 / 2, coverage = 0 \<rparr>,
            reasoning = ''Workflow execution failed with exception'',
            humanReviewRequired = True \<rparr>"
    by (simp_all add: executeWorkflow_launch_failed [OF l] exception_result_def)
next
  assume e: "execute St S flow (m (workflow_id flow)) w = (Inl msg, w1)"
  have "fst (executeBatch St S (flow # rest) m w)
      = batch_failure flow msg # fst (executeBatch St S rest m w1)"
    using e by (simp add: case_prod_beta)
  then show "\<exists>B. fst (executeBatch St S (flow # rest) m w) = B # fst (executeBatch St S rest m w1) \<and>
           run_status B = RunFailure \<and> stepResults B = [] \<and> logs B = [msg] \<and>
           issues (run_critique B)
             = [\<lparr> severity = Critical, issue_description = msg, suggestion = None \<rparr>] \<and>
           confidence (run_critique B)
             = \<lparr> overall = 0,
                 dimensions = \<lparr> completeness = 0, accuracy = 0, feasibility = 0, coverage = 0 \<rparr>,
                 reasoning = ''Execution failed with exception'',
                 humanReviewRequired = True \<rparr>"
    by (intro exI [of _ "batch_failure flow msg"]) (simp add: batch_failure_def)
next
  show "length (fst (executeBatch St S flows m w)) = length flows"
    by (rule executeBatch_length)
qed

theorem run_level_fault_witness:
  "launch broken_session (new_executor 0) = (Inl ''browser launch failed'', new_executor 0) \<and>
   overall (confidence (run_critique (fst (executeWorkflow broken_session
      (workflow_of_steps [click_step 1 None]) None (new_executor 0))))) = 1 / 10 \<and>
   fst (execute full_storage (flaky_session 0) (workflow_of_steps [click_step 1 None]) None 0)
     = Inl ''no space left on device'' \<and>
   map (\<lambda>B. overall (confidence (run_critique B)))
     (fst (executeBatch full_storage (flaky_session 0) [workflow_of_steps [click_step 1 None]]
        (\<lambda>_. None) 0)) = [0]"
proof -
  let ?flow = "workflow_of_steps [click_step 1 None]"
  obtain w1 where e: "execute full_storage (flaky_session 0) ?flow ((\<lambda>_. None) (workflow_id ?flow)) 0
      = (Inl ''no space left on device'', w1)"
    using execute_full_storage [of "flaky_session 0" ?flow None 0]
    by (cases "execute full_storage (flaky_session 0) ?flow None 0") simp
  from run_level_fault [where S = broken_session and ex = "new_executor 0"
      and msg = "''browser launch failed''" and ?ex1.0 = "new_executor 0" and flow = ?flow
      and ui = None] launch_broken
  have a: "overall (confidence (run_critique (fst (executeWorkflow broken_session ?flow None
      (new_executor 0))))) = 1 / 10"
    by simp
  from run_level_fault [where S = "flaky_session 0" and msg = "''no space left on device''"
      and flow = ?flow and St = full_storage and m = "\<lambda>_. None" and w = 0 and ?w1.0 = w1
      and rest = "[]"] e
  obtain B where "fst (executeBatch full_storage (flaky_session 0) [?flow] (\<lambda>_. None) 0)
       = B # fst (executeBatch full_storage (flaky_session 0) [] (\<lambda>_. None) w1)"
    and "overall (confidence (run_critique B)) = 0"
    by auto
  then have b: "map (\<lambda>B. overall (confidence (run_critique B)))
     (fst (executeBatch full_storage (flaky_session 0) [?flow] (\<lambda>_. None) 0)) = [0]"
    by simp
  show ?thesis
    using a b launch_broken execute_full_storage [of "flaky_session 0" ?flow None 0] by blast
qed

text \<open>
  The claim as stated attaches a zero-confidence critique to the result that the top-level
  handler of the run builds. For a browser that cannot be launched that result has overall
  confidence 0.1 and feasibility 0.5.
\<close>

theorem run_level_fault_counterexample:
  "run_status (fst (executeWorkflow broken_session (workflow_of_steps [click_step 1 None]) None
      (new_executor 0))) = RunFailure \<and>
   overall (confidence (run_critique (fst (executeWorkflow broken_session
      (workflow_of_steps [click_step 1 None]) None (new_executor 0))))) = 1 / 10 \<and>
   feasibility (dimensions (confidence (run_critique (fst (executeWorkflow broken_session
      (workflow_of_steps [click_step 1 None]) None (new_executor 0)))))) = 1 / 2"
  by (simp add: executeWorkflow_launch_failed [OF launch_broken] exception_result_def)

section \<open>Verification: what a successful retry leaves on the outcome\<close>

text \<open>
  C10. When a step with the retry strategy fails on its first attempt and a later
  re-attempt within the bound succeeds, the outcome recorded for the step keeps the step
  number, the error text and the screenshot reference of the first attempt; only its
  status, now success, and its output, now that of the successful re-attempt, change. A
  failed attempt always has an error text, so the outcome has status success and an error
  text. Such a result exists: with a click that throws once, the one-step workflow with the
  retry strategy ends with overall status success and an outcome of status success that
  carries the text of the thrown error.
\<close>

theorem retry_success_keeps_error:
  "(step_strategy step = Some Retry \<and> executeStep S step ex = (first, ex1) \<and> \<not> success first \<and>
    int k < step_maxRetries step \<and> (\<forall>j<k. \<not> success (attempt S step j ex1)) \<and>
    success (attempt S step k ex1) \<longrightarrow>
      length outcomes < length (fst (runSteps S (step # rest) outcomes ex)) \<and>
      outcome_stepNumber (fst (runSteps S (step # rest) outcomes ex) ! length outcomes) = stepNumber step \<and>
      status (fst (runSteps S (step # rest) outcomes ex) ! length outcomes) = StepSuccess \<and>
      outcome_output (fst (runSteps S (step # rest) outcomes ex) ! length outcomes)
        = step_output (attempt S step k ex1) \<and>
      outcome_error (fst (runSteps S (step # rest) outcomes ex) ! length outcomes) = step_error first \<and>
      outcome_error (fst (runSteps S (step # rest) outcomes ex) ! length outcomes) \<noteq> None \<and>
      outcome_screenshot (fst (runSteps S (step # rest) outcomes ex) ! length outcomes)
        = step_screenshot first) \<and>
   stepResults (fst (executeWorkflow (flaky_session (Suc 0))
       (workflow_of_steps [click_step 1 (Some Retry)]) None (new_executor 0)))
     = [\<lparr> outcome_stepNumber = 1, status = StepSuccess,
          outcome_output = Some (JObj [(''selector'', JStr ''#submit'')]),
          outcome_error = Some ''element is detached'', outcome_screenshot = None \<rparr>] \<and>
   run_status (fst (executeWorkflow (flaky_session (Suc 0))
       (workflow_of_steps [click_step 1 (Some Retry)]) None (new_executor 0))) = RunSuccess"
proof (intro conjI impI)
  assume h: "step_strategy step = Some Retry \<and> executeStep S step ex = (first, ex1) \<and>
    \<not> success first \<and> int k < step_maxRetries step \<and>
    (\<forall>j<k. \<not> success (attempt S step j ex1)) \<and> success (attempt S step k ex1)"
  let ?out = "(record_outcome step first)
      \<lparr> status := StepSuccess, outcome_output := step_output (attempt S step k ex1) \<rparr>"
  have retry: "retryStep S step (step_maxRetries step) 0 ex1
      = (Some (attempt S step k ex1), after_attempts S step (Suc k) ex1)"
    using h by (intro retryStep_first_success) simp_all
  have run: "runSteps S (step # rest) outcomes ex
      = runSteps S rest (outcomes @ [?out]) (advance step (after_attempts S step (Suc k) ex1))"
    using runSteps_retry_succeeded [OF _ _ _ retry] h by blast
  obtain more where more: "fst (runSteps S (step # rest) outcomes ex) = (outcomes @ [?out]) @ more"
    using runSteps_extends [of S rest "outcomes @ [?out]"] unfolding run by blast
  have nth: "fst (runSteps S (step # rest) outcomes ex) ! length outcomes = ?out"
    unfolding more by (simp add: nth_append)
  have err: "step_error first \<noteq> None"
    using executeStep_failure [of S step ex first ex1] h by blast
  show "length outcomes < length (fst (runSteps S (step # rest) outcomes ex))"
    unfolding more by simp
  show "outcome_stepNumber (fst (runSteps S (step # rest) outcomes ex) ! length outcomes) = stepNumber step"
    unfolding nth by (simp add: record_outcome_def)
  show "status (fst (runSteps S (step # rest) outcomes ex) ! length outcomes) = StepSuccess"
    unfolding nth by simp
  show "outcome_output (fst (runSteps S (step # rest) outcomes ex) ! length outcomes)
        = step_output (attempt S step k ex1)"
    unfolding nth by simp
  show "outcome_error (fst (runSteps S (step # rest) outcomes ex) ! length outcomes) = step_error first"
    unfolding nth by (simp add: record_outcome_def)
  show "outcome_error (fst (runSteps S (step # rest) outcomes ex) ! length outcomes) \<noteq> None"
    unfolding nth using err by (simp add: record_outcome_def)
  show "outcome_screenshot (fst (runSteps S (step # rest) outcomes ex) ! length outcomes)
        = step_screenshot first"
    unfolding nth by (simp add: record_outcome_def)
next
  have outs: "fst (runSteps (flaky_session (Suc 0)) [click_step 1 (Some Retry)] []
       \<lparr> executionState = st, currentPage = True, world = 0 \<rparr>)
     = [\<lparr> outcome_stepNumber = 1, status = StepSuccess,
          outcome_output = Some (JObj [(''selector'', JStr ''#submit'')]),
          outcome_error = Some ''element is detached'', outcome_screenshot = None \<rparr>]" for st
    by (simp add: flaky_click click_step_facts step_failure_def step_success_def record_outcome_def
        advance_def update_last_def retryStep.simps)
  show "stepResults (fst (executeWorkflow (flaky_session (Suc 0))
       (workflow_of_steps [click_step 1 (Some Retry)]) None (new_executor 0)))
     = [\<lparr> outcome_stepNumber = 1, status = StepSuccess,
          outcome_output = Some (JObj [(''selector'', JStr ''#submit'')]),
          outcome_error = Some ''element is detached'', outcome_screenshot = None \<rparr>]"
    by (simp add: executeWorkflow_launched [OF launch_flaky] seed_live workflow_of_steps_def outs
        del: runSteps.simps)
  show "run_status (fst (executeWorkflow (flaky_session (Suc 0))
       (workflow_of_steps [click_step 1 (Some Retry)]) None (new_executor 0))) = RunSuccess"
    by (simp add: executeWorkflow_launched [OF launch_flaky] seed_live workflow_of_steps_def outs
        completed_result_def del: runSteps.simps)
qed

theorem retry_success_keeps_error_witness:
  "step_strategy (click_step 1 (Some Retry)) = Some Retry \<and>
   executeStep (flaky_session 2) (click_step 1 (Some Retry)) live
     = (step_failure ''element is detached'',
        \<lparr> executionState = createInitialState, currentPage = True, world = Suc 0 \<rparr>) \<and>
   \<not> success (step_failure ''element is detached'') \<and>
   int 1 < step_maxRetries (click_step 1 (Some Retry)) \<and>
   \<not> success (attempt (flaky_session 2) (click_step 1 (Some Retry)) 0
        \<lparr> executionState = createInitialState, currentPage = True, world = Suc 0 \<rparr>) \<and>
   success (attempt (flaky_session 2) (click_step 1 (Some Retry)) 1
        \<lparr> executionState = createInitialState, currentPage = True, world = Suc 0 \<rparr>) \<and>
   status (fst (runSteps (flaky_session 2) [click_step 1 (Some Retry)] [] live) ! 0) = StepSuccess \<and>
   outcome_error (fst (runSteps (flaky_session 2) [click_step 1 (Some Retry)] [] live) ! 0)
     = Some ''element is detached''"
proof -
  let ?s = "click_step 1 (Some Retry)"
  let ?ex1 = "\<lparr> executionState = createInitialState, currentPage = True, world = Suc 0 \<rparr>"
  have strat: "step_strategy ?s = Some Retry" by (simp add: click_step_facts)
  have f: "executeStep (flaky_session 2) ?s live = (step_failure ''element is detached'', ?ex1)"
    by (simp add: live_eq flaky_click)
  have nf: "\<not> success (step_failure ''element is detached'')" by (simp add: step_failure_def)
  have bound: "int 1 < step_maxRetries ?s" by (simp add: click_step_facts)
  have a0: "\<not> success (attempt (flaky_session 2) ?s 0 ?ex1)"
    by (simp add: flaky_attempt step_failure_def)
  have a1: "success (attempt (flaky_session 2) ?s 1 ?ex1)"
    by (simp add: flaky_attempt step_success_def)
  have before: "\<forall>j<1. \<not> success (attempt (flaky_session 2) ?s j ?ex1)"
    using a0 by simp
  from retry_success_keeps_error [where step = ?s and S = "flaky_session 2" and ex = live
      and first = "step_failure ''element is detached''" and ?ex1.0 = ?ex1 and k = 1
      and outcomes = "[]" and rest = "[]"] strat f nf bound before a1
  have "status (fst (runSteps (flaky_session 2) [?s] [] live) ! length ([] :: StepOutcome list))
          = StepSuccess \<and>
        outcome_error (fst (runSteps (flaky_session 2) [?s] [] live) ! length ([] :: StepOutcome list))
          = step_error (step_failure ''element is detached'')"
    by blast
  then have "status (fst (runSteps (flaky_session 2) [?s] [] live) ! 0) = StepSuccess \<and>
        outcome_error (fst (runSteps (flaky_session 2) [?s] [] live) ! 0) = Some ''element is detached''"
    by (simp add: step_failure_def del: runSteps.simps)
  then show ?thesis using strat f nf bound a0 a1 by blast
qed

section \<open>Verification: the markdown round trip\<close>

lemma block_has_no_description: "js_get ''description'' (step_block_object step) = None"
  by (simp add: js_get_def step_block_object_def opt_member_def split: option.splits)

lemma step_schema_needs_description:
  "req_string (js_get ''description'' v) = None \<Longrightarrow> step_schema v = None"
  by (cases v) (auto simp: step_schema_def split: option.splits)

lemma all_steps_Some:
  "all_steps vs = Some ss \<Longrightarrow> v \<in> set vs \<Longrightarrow> step_schema v \<noteq> None"
  by (induction vs arbitrary: ss) (auto split: option.splits)

lemma sort_raw_steps_set: "sort_raw_steps vs = Inr ordered \<Longrightarrow> set ordered = set vs"
  by (auto simp: sort_raw_steps_def split: if_splits)

lemma fromMarkdown_needs_description:
  assumes "v \<in> set (raw_steps (parse_lines initial_parse_state (drop 1 (split_on (CHR 0x0A) md))))"
    and "req_string (js_get ''description'' v) = None"
  shows "isl (fromMarkdown env md)"
proof (cases "sort_raw_steps (raw_steps (parse_lines initial_parse_state (drop 1 (split_on (CHR 0x0A) md))))")
  case (Inl e)
  then show ?thesis by (simp add: fromMarkdown_def Let_def)
next
  case (Inr ordered)
  then have "v \<in> set ordered" using assms(1) sort_raw_steps_set by blast
  moreover have "step_schema v = None" by (rule step_schema_needs_description [OF assms(2)])
  ultimately have "all_steps ordered = None"
    using all_steps_Some [of ordered _ v] by (cases "all_steps ordered") auto
  then show ?thesis using Inr by (simp add: fromMarkdown_def Let_def)
qed

lemma raw_steps_example:
  "raw_steps (parse_lines initial_parse_state (drop 1 (split_on (CHR 0x0A)
      (toMarkdown (workflow_of_steps [click_step 1 (Some Retry)])))))
   = [JObj [(''stepNumber'', JNum 1), (''action'', JStr ''click''),
            (''target'', JObj [(''selector'', JStr ''#submit'')]),
            (''errorHandling'',
               JObj [(''strategy'', JStr ''retry''), (''maxRetries'', JNum 2),
                     (''fallbackStepNumber'', JNum 1)])]]"
  by code_simp

lemma block_example:
  "step_block_object (click_step 1 (Some Retry))
   = JObj [(''stepNumber'', JNum 1), (''action'', JStr ''click''),
            (''target'', JObj [(''selector'', JStr ''#submit'')]),
            (''errorHandling'',
               JObj [(''strategy'', JStr ''retry''), (''maxRetries'', JNum 2),
                     (''fallbackStepNumber'', JNum 1)])]"
  by (simp add: step_block_object_def click_step_def opt_member_def target_object_def
      errorHandling_object_def)

text \<open>
  C2 (the code does not have the property). The object that the formatter writes into a
  step's fenced block has no \<open>description\<close>. The parser rebuilds every step from its block
  alone and then checks it against the step schema, which requires a \<open>description\<close>: a
  document with a block that lacks one is rejected, whatever the identifier and timestamp
  checks accept. For the workflow with one click step the parser recovers exactly the
  formatter's block and then throws "Invalid workflow structure" instead of returning a
  workflow with that step.
\<close>

theorem round_trip_rejected:
  "js_get ''description'' (step_block_object step) = None \<and>
   ((\<exists>v\<in>set (raw_steps (parse_lines initial_parse_state (drop 1 (split_on (CHR 0x0A) md)))).
        req_string (js_get ''description'' v) = None) \<longrightarrow> isl (fromMarkdown env md)) \<and>
   raw_steps (parse_lines initial_parse_state (drop 1 (split_on (CHR 0x0A)
      (toMarkdown (workflow_of_steps [click_step 1 (Some Retry)])))))
     = [step_block_object (click_step 1 (Some Retry))] \<and>
   fromMarkdown env (toMarkdown (workflow_of_steps [click_step 1 (Some Retry)]))
     = Inl InvalidWorkflowStructure"
proof (intro conjI impI)
  show "js_get ''description'' (step_block_object step) = None"
    by (rule block_has_no_description)
next
  assume "\<exists>v\<in>set (raw_steps (parse_lines initial_parse_state (drop 1 (split_on (CHR 0x0A) md)))).
        req_string (js_get ''description'' v) = None"
  then show "isl (fromMarkdown env md)"
    using fromMarkdown_needs_description by blast
next
  show raw: "raw_steps (parse_lines initial_parse_state (drop 1 (split_on (CHR 0x0A)
      (toMarkdown (workflow_of_steps [click_step 1 (Some Retry)])))))
     = [step_block_object (click_step 1 (Some Retry))]"
    by (simp only: raw_steps_example block_example)
  have none: "step_schema (step_block_object (click_step 1 (Some Retry))) = None"
    by (rule step_schema_needs_description) (simp add: block_has_no_description req_string_def)
  have sorted: "sort_raw_steps [step_block_object (click_step 1 (Some Retry))]
      = Inr [step_block_object (click_step 1 (Some Retry))]"
    by (simp add: sort_raw_steps_def)
  show "fromMarkdown env (toMarkdown (workflow_of_steps [click_step 1 (Some Retry)]))
     = Inl InvalidWorkflowStructure"
    unfolding fromMarkdown_def Let_def raw sorted by (simp add: none)
qed

theorem round_trip_rejected_witness:
  "step_block_object (click_step 1 (Some Retry))
     \<in> set (raw_steps (parse_lines initial_parse_state (drop 1 (split_on (CHR 0x0A)
          (toMarkdown (workflow_of_steps [click_step 1 (Some Retry)])))))) \<and>
   req_string (js_get ''description'' (step_block_object (click_step 1 (Some Retry)))) = None \<and>
   isl (fromMarkdown lenient_env (toMarkdown (workflow_of_steps [click_step 1 (Some Retry)])))"
proof -
  let ?md = "toMarkdown (workflow_of_steps [click_step 1 (Some Retry)])"
  let ?b = "step_block_object (click_step 1 (Some Retry))"
  note rt = round_trip_rejected [of "click_step 1 (Some Retry)" ?md lenient_env]
  from rt have raw: "raw_steps (parse_lines initial_parse_state (drop 1 (split_on (CHR 0x0A) ?md)))
      = [?b]"
    by blast
  from rt have "js_get ''description'' ?b = None" by blast
  then have none: "req_string (js_get ''description'' ?b) = None" by (simp add: req_string_def)
  have mem: "?b \<in> set (raw_steps (parse_lines initial_parse_state (drop 1 (split_on (CHR 0x0A) ?md))))"
    unfolding raw by simp
  with none rt have "isl (fromMarkdown lenient_env ?md)" by blast
  with mem none show ?thesis by blast
qed

end
